theory Spec2Isabelle
  imports Main "HOL-Library.Word"
begin

unbundle bit_operations_syntax

section \<open>JavaScript values\<close>

text \<open>
  A JavaScript string is a sequence of UTF-16 code units; a Buffer is a sequence of
  bytes. String literals of the source are ASCII and are written with \<open>str\<close>.
\<close>

type_synonym code_unit = "16 word"
type_synonym jsstring = "code_unit list"
type_synonym byte = "8 word"

definition str :: "string \<Rightarrow> jsstring" where
  "str s = map of_char s"

text \<open>
  The values \<open>JSON.parse\<close> can return. A number is kept as the text of its literal:
  the program never computes with one. \<open>None\<close> of type \<open>jsval\<close> is \<open>undefined\<close>.
\<close>

datatype json =
    JNull
  | JBool bool
  | JNum jsstring
  | JStr jsstring
  | JArr "json list"
  | JObj "(jsstring \<times> json) list"

type_synonym jsval = "json option"

text \<open>
  What the source throws. \<open>Error m\<close> is \<open>new Error(m)\<close>; the others are thrown by the
  built-ins and by the collaborators.
\<close>

datatype error =
    Error string
  | SyntaxError
  | TypeError
  | URIError
  | ProviderError string
  | SigningError string

section \<open>Built-ins: UTF-8, base64, JSON\<close>

subsection \<open>UTF-16 surrogates\<close>

definition is_lead :: "code_unit \<Rightarrow> bool" where
  "is_lead c \<longleftrightarrow> 0xD800 \<le> c \<and> c \<le> 0xDBFF"

definition is_trail :: "code_unit \<Rightarrow> bool" where
  "is_trail c \<longleftrightarrow> 0xDC00 \<le> c \<and> c \<le> 0xDFFF"

definition pair_code_point :: "code_unit \<Rightarrow> code_unit \<Rightarrow> nat" where
  "pair_code_point h l = 0x10000 + (unat h - 0xD800) * 0x400 + (unat l - 0xDC00)"

definition utf16_of_code_point :: "nat \<Rightarrow> jsstring" where
  "utf16_of_code_point cp =
     (if cp < 0x10000 then [of_nat cp]
      else [of_nat (0xD800 + (cp - 0x10000) div 0x400),
            of_nat (0xDC00 + (cp - 0x10000) mod 0x400)])"

text \<open>A string is well formed when every surrogate is half of a pair.\<close>

fun well_formed :: "jsstring \<Rightarrow> bool" where
  "well_formed [] = True"
| "well_formed [c] = (\<not> is_lead c \<and> \<not> is_trail c)"
| "well_formed (c # d # cs) =
     (if is_lead c \<and> is_trail d then well_formed cs
      else \<not> is_lead c \<and> \<not> is_trail c \<and> well_formed (d # cs))"

text \<open>The code units of ASCII.\<close>

definition plain :: "code_unit \<Rightarrow> bool" where
  "plain c \<longleftrightarrow> c < 0x80"

subsection \<open>\<open>Buffer.from(s)\<close> and \<open>buf.toString('utf8')\<close>\<close>

definition utf8_of_code_point :: "nat \<Rightarrow> byte list" where
  "utf8_of_code_point cp =
     (if cp < 0x80 then [of_nat cp]
      else if cp < 0x800 then [of_nat (0xC0 + cp div 64), of_nat (0x80 + cp mod 64)]
      else if cp < 0x10000 then
        [of_nat (0xE0 + cp div 4096), of_nat (0x80 + cp div 64 mod 64),
         of_nat (0x80 + cp mod 64)]
      else
        [of_nat (0xF0 + cp div 262144), of_nat (0x80 + cp div 4096 mod 64),
         of_nat (0x80 + cp div 64 mod 64), of_nat (0x80 + cp mod 64)])"

text \<open>
  \<open>Buffer.from(s)\<close> encodes in UTF-8; a surrogate that is not half of a pair becomes
  U+FFFD, the bytes EF BF BD.
\<close>

fun utf8_encode :: "jsstring \<Rightarrow> byte list" where
  "utf8_encode [] = []"
| "utf8_encode [c] =
     (if is_lead c \<or> is_trail c then [0xEF, 0xBF, 0xBD] else utf8_of_code_point (unat c))"
| "utf8_encode (c # d # cs) =
     (if is_lead c \<and> is_trail d then
        utf8_of_code_point (pair_code_point c d) @ utf8_encode cs
      else if is_lead c \<or> is_trail c then [0xEF, 0xBF, 0xBD] @ utf8_encode (d # cs)
      else utf8_of_code_point (unat c) @ utf8_encode (d # cs))"

text \<open>
  \<open>buf.toString('utf8')\<close> decodes as the WHATWG UTF-8 decoder does: a state of the
  code point read so far, the bytes needed and seen, and the bounds of the next byte;
  a byte that cannot continue the sequence gives U+FFFD and is read again as the start
  of a sequence.
\<close>

record utf8_state =
  code_point :: nat
  bytes_needed :: nat
  bytes_seen :: nat
  lower_boundary :: nat
  upper_boundary :: nat

definition utf8_initial :: utf8_state where
  "utf8_initial =
     \<lparr> code_point = 0, bytes_needed = 0, bytes_seen = 0,
       lower_boundary = 0x80, upper_boundary = 0xBF \<rparr>"

definition utf8_lead :: "nat \<Rightarrow> nat list \<times> utf8_state" where
  "utf8_lead b =
     (if b \<le> 0x7F then ([b], utf8_initial)
      else if 0xC2 \<le> b \<and> b \<le> 0xDF then
        ([], utf8_initial \<lparr> code_point := b mod 32, bytes_needed := 1 \<rparr>)
      else if 0xE0 \<le> b \<and> b \<le> 0xEF then
        ([], utf8_initial \<lparr> code_point := b mod 16, bytes_needed := 2,
               lower_boundary := (if b = 0xE0 then 0xA0 else 0x80),
               upper_boundary := (if b = 0xED then 0x9F else 0xBF) \<rparr>)
      else if 0xF0 \<le> b \<and> b \<le> 0xF4 then
        ([], utf8_initial \<lparr> code_point := b mod 8, bytes_needed := 3,
               lower_boundary := (if b = 0xF0 then 0x90 else 0x80),
               upper_boundary := (if b = 0xF4 then 0x8F else 0xBF) \<rparr>)
      else ([0xFFFD], utf8_initial))"

definition utf8_step :: "utf8_state \<Rightarrow> nat \<Rightarrow> nat list \<times> utf8_state" where
  "utf8_step st b =
     (if bytes_needed st = 0 then utf8_lead b
      else if b < lower_boundary st \<or> upper_boundary st < b then
        (case utf8_lead b of (out, st') \<Rightarrow> (0xFFFD # out, st'))
      else
        (let cp = code_point st * 64 + b mod 64 in
         if bytes_seen st + 1 \<noteq> bytes_needed st then
           ([], st \<lparr> code_point := cp, bytes_seen := bytes_seen st + 1,
                  lower_boundary := 0x80, upper_boundary := 0xBF \<rparr>)
         else ([cp], utf8_initial)))"

fun utf8_run :: "utf8_state \<Rightarrow> byte list \<Rightarrow> nat list" where
  "utf8_run st [] = (if bytes_needed st \<noteq> 0 then [0xFFFD] else [])"
| "utf8_run st (b # bs) =
     (case utf8_step st (unat b) of (out, st') \<Rightarrow> out @ utf8_run st' bs)"

definition utf8_decode :: "byte list \<Rightarrow> jsstring" where
  "utf8_decode bs = concat (map utf16_of_code_point (utf8_run utf8_initial bs))"

subsection \<open>\<open>buf.toString('base64')\<close> and \<open>Buffer.from(s, 'base64')\<close>\<close>

definition b64_char :: "nat \<Rightarrow> code_unit" where
  "b64_char n =
     str ''ABCDEFGHIJKLMNOPQRSTUVWXYZabcdefghijklmnopqrstuvwxyz0123456789+/'' ! n"

fun base64_encode :: "byte list \<Rightarrow> jsstring" where
  "base64_encode [] = []"
| "base64_encode [a] =
     [b64_char (unat a div 4), b64_char (unat a mod 4 * 16), 0x3D, 0x3D]"
| "base64_encode [a, b] =
     [b64_char (unat a div 4), b64_char (unat a mod 4 * 16 + unat b div 16),
      b64_char (unat b mod 16 * 4), 0x3D]"
| "base64_encode (a # b # c # bs) =
     [b64_char (unat a div 4), b64_char (unat a mod 4 * 16 + unat b div 16),
      b64_char (unat b mod 16 * 4 + unat c div 64), b64_char (unat c mod 64)]
     @ base64_encode bs"

text \<open>
  Node decodes base64 leniently. It reads every code unit as a byte, its low eight
  bits, so that U+0165 is read as \<open>e\<close> and U+013D as \<open>=\<close>. Both alphabets are accepted
  (\<open>+\<close> or \<open>-\<close>, \<open>/\<close> or \<open>_\<close>), a byte outside them is skipped, and decoding stops at the
  first \<open>=\<close>.
\<close>

definition low_byte :: "code_unit \<Rightarrow> code_unit" where
  "low_byte c = c AND 0xFF"

definition unbase64 :: "code_unit \<Rightarrow> nat option" where
  "unbase64 c =
     (if 0x41 \<le> low_byte c \<and> low_byte c \<le> 0x5A then Some (unat (low_byte c) - 0x41)
      else if 0x61 \<le> low_byte c \<and> low_byte c \<le> 0x7A then Some (unat (low_byte c) - 0x61 + 26)
      else if 0x30 \<le> low_byte c \<and> low_byte c \<le> 0x39 then Some (unat (low_byte c) - 0x30 + 52)
      else if low_byte c = 0x2B \<or> low_byte c = 0x2D then Some 62
      else if low_byte c = 0x2F \<or> low_byte c = 0x5F then Some 63
      else None)"

fun base64_sextets :: "jsstring \<Rightarrow> nat list" where
  "base64_sextets [] = []"
| "base64_sextets (c # cs) =
     (if low_byte c = 0x3D then []
      else case unbase64 c of
             Some n \<Rightarrow> n # base64_sextets cs
           | None \<Rightarrow> base64_sextets cs)"

fun base64_bytes :: "nat list \<Rightarrow> byte list" where
  "base64_bytes (a # b # c # d # ss) =
     [of_nat (a * 4 + b div 16), of_nat (b mod 16 * 16 + c div 4), of_nat (c mod 4 * 64 + d)]
     @ base64_bytes ss"
| "base64_bytes [a, b, c] = [of_nat (a * 4 + b div 16), of_nat (b mod 16 * 16 + c div 4)]"
| "base64_bytes [a, b] = [of_nat (a * 4 + b div 16)]"
| "base64_bytes ss = []"

definition base64_decode :: "jsstring \<Rightarrow> byte list" where
  "base64_decode s = base64_bytes (base64_sextets s)"

subsection \<open>\<open>JSON.stringify\<close>\<close>

definition hex_digit :: "nat \<Rightarrow> code_unit" where
  "hex_digit n = str ''0123456789abcdef'' ! n"

definition unicode_escape :: "code_unit \<Rightarrow> jsstring" where
  "unicode_escape c =
     [0x5C, 0x75, hex_digit (unat c div 4096), hex_digit (unat c div 256 mod 16),
      hex_digit (unat c div 16 mod 16), hex_digit (unat c mod 16)]"

text \<open>
  QuoteJSONString of ECMAScript, for a code unit that is not half of a surrogate pair:
  the two-character escapes of backspace, tab, line feed, form feed, carriage return,
  the double quote and the backslash; a \<open>\\u\<close> escape for the other control
  characters and for a lone surrogate; the code unit itself otherwise.
\<close>

definition quote_unit :: "code_unit \<Rightarrow> jsstring" where
  "quote_unit c =
     (if c = 0x08 then [0x5C, 0x62]
      else if c = 0x09 then [0x5C, 0x74]
      else if c = 0x0A then [0x5C, 0x6E]
      else if c = 0x0C then [0x5C, 0x66]
      else if c = 0x0D then [0x5C, 0x72]
      else if c = 0x22 then [0x5C, 0x22]
      else if c = 0x5C then [0x5C, 0x5C]
      else if c < 0x20 \<or> is_lead c \<or> is_trail c then unicode_escape c
      else [c])"

fun quote_units :: "jsstring \<Rightarrow> jsstring" where
  "quote_units [] = []"
| "quote_units [c] = quote_unit c"
| "quote_units (c # d # cs) =
     (if is_lead c \<and> is_trail d then c # d # quote_units cs
      else quote_unit c @ quote_units (d # cs))"

definition QuoteJSONString :: "jsstring \<Rightarrow> jsstring" where
  "QuoteJSONString s = 0x22 # quote_units s @ [0x22]"

text \<open>
  \<open>JSON.stringify\<close> of an object whose property values are strings, the only use the
  source makes of it: the members in the order of the properties, with no white space.
\<close>

fun stringify_members :: "(jsstring \<times> jsstring) list \<Rightarrow> jsstring" where
  "stringify_members [] = []"
| "stringify_members [(k, v)] = QuoteJSONString k @ [0x3A] @ QuoteJSONString v"
| "stringify_members ((k, v) # m # ms) =
     QuoteJSONString k @ [0x3A] @ QuoteJSONString v @ [0x2C] @ stringify_members (m # ms)"

definition JSON_stringify :: "(jsstring \<times> jsstring) list \<Rightarrow> jsstring" where
  "JSON_stringify ms = [0x7B] @ stringify_members ms @ [0x7D]"

subsection \<open>\<open>JSON.parse\<close>\<close>

definition json_ws :: "code_unit \<Rightarrow> bool" where
  "json_ws c \<longleftrightarrow> c = 0x20 \<or> c = 0x09 \<or> c = 0x0A \<or> c = 0x0D"

definition skip_ws :: "jsstring \<Rightarrow> jsstring" where
  "skip_ws = dropWhile json_ws"

definition is_digit :: "code_unit \<Rightarrow> bool" where
  "is_digit c \<longleftrightarrow> 0x30 \<le> c \<and> c \<le> 0x39"

definition hex_val :: "code_unit \<Rightarrow> nat option" where
  "hex_val c =
     (if 0x30 \<le> c \<and> c \<le> 0x39 then Some (unat c - 0x30)
      else if 0x61 \<le> c \<and> c \<le> 0x66 then Some (unat c - 0x61 + 10)
      else if 0x41 \<le> c \<and> c \<le> 0x46 then Some (unat c - 0x41 + 10)
      else None)"

definition unescape :: "code_unit \<Rightarrow> code_unit option" where
  "unescape e =
     (if e = 0x22 then Some 0x22
      else if e = 0x5C then Some 0x5C
      else if e = 0x2F then Some 0x2F
      else if e = 0x62 then Some 0x08
      else if e = 0x66 then Some 0x0C
      else if e = 0x6E then Some 0x0A
      else if e = 0x72 then Some 0x0D
      else if e = 0x74 then Some 0x09
      else None)"

definition hex4 :: "code_unit \<Rightarrow> code_unit \<Rightarrow> code_unit \<Rightarrow> code_unit \<Rightarrow> code_unit option" where
  "hex4 h1 h2 h3 h4 =
     (case (hex_val h1, hex_val h2, hex_val h3, hex_val h4) of
        (Some a, Some b, Some c, Some d) \<Rightarrow> Some (of_nat (((a * 16 + b) * 16 + c) * 16 + d))
      | _ \<Rightarrow> None)"

text \<open>
  The characters of a string literal after its opening quote: the string, and the
  text that follows the closing quote. \<open>None\<close> is a syntax error.
\<close>

fun parse_string_body :: "jsstring \<Rightarrow> (jsstring \<times> jsstring) option" where
  "parse_string_body [] = None"
| "parse_string_body (c # cs) =
     (if c = 0x22 then Some ([], cs)
      else if c = 0x5C then
        (case cs of
           [] \<Rightarrow> None
         | e # es \<Rightarrow>
             if e = 0x75 then
               (case es of
                  h1 # h2 # h3 # h4 # r \<Rightarrow>
                    (case hex4 h1 h2 h3 h4 of
                       None \<Rightarrow> None
                     | Some u \<Rightarrow> map_option (apfst ((#) u)) (parse_string_body r))
                | _ \<Rightarrow> None)
             else
               (case unescape e of
                  None \<Rightarrow> None
                | Some u \<Rightarrow> map_option (apfst ((#) u)) (parse_string_body es)))
      else if c < 0x20 then None
      else map_option (apfst ((#) c)) (parse_string_body cs))"

text \<open>A number literal: its text, and the text that follows it.\<close>

definition parse_digits :: "jsstring \<Rightarrow> (jsstring \<times> jsstring) option" where
  "parse_digits cs =
     (if takeWhile is_digit cs = [] then None
      else Some (takeWhile is_digit cs, dropWhile is_digit cs))"

definition parse_int_part :: "jsstring \<Rightarrow> (jsstring \<times> jsstring) option" where
  "parse_int_part cs =
     (case cs of
        [] \<Rightarrow> None
      | c # r \<Rightarrow> if c = 0x30 then Some ([c], r) else parse_digits cs)"

definition parse_frac_part :: "jsstring \<Rightarrow> (jsstring \<times> jsstring) option" where
  "parse_frac_part cs =
     (case cs of
        [] \<Rightarrow> Some ([], cs)
      | c # r \<Rightarrow>
          if c = 0x2E then map_option (apfst ((#) c)) (parse_digits r)
          else Some ([], cs))"

definition parse_exp_part :: "jsstring \<Rightarrow> (jsstring \<times> jsstring) option" where
  "parse_exp_part cs =
     (case cs of
        [] \<Rightarrow> Some ([], cs)
      | c # r \<Rightarrow>
          if c = 0x65 \<or> c = 0x45 then
            (case r of
               [] \<Rightarrow> None
             | s # r' \<Rightarrow>
                 if s = 0x2B \<or> s = 0x2D then map_option (apfst (\<lambda>ds. c # s # ds)) (parse_digits r')
                 else map_option (apfst ((#) c)) (parse_digits r))
          else Some ([], cs))"

definition parse_number :: "jsstring \<Rightarrow> (jsstring \<times> jsstring) option" where
  "parse_number cs =
     (let (sign, r0) = (case cs of
                          [] \<Rightarrow> ([], cs)
                        | c # r \<Rightarrow> if c = 0x2D then ([c], r) else ([], cs))
      in case parse_int_part r0 of
           None \<Rightarrow> None
         | Some (i, r1) \<Rightarrow>
             (case parse_frac_part r1 of
                None \<Rightarrow> None
              | Some (f, r2) \<Rightarrow>
                  (case parse_exp_part r2 of
                     None \<Rightarrow> None
                   | Some (e, r3) \<Rightarrow> Some (sign @ i @ f @ e, r3))))"

definition parse_literal :: "jsstring \<Rightarrow> (json \<times> jsstring) option" where
  "parse_literal cs =
     (if take 4 cs = str ''null'' then Some (JNull, drop 4 cs)
      else if take 4 cs = str ''true'' then Some (JBool True, drop 4 cs)
      else if take 5 cs = str ''false'' then Some (JBool False, drop 5 cs)
      else None)"

text \<open>
  The recursive descent over values, the elements of an array after its \<open>[\<close> and the
  members of an object after its \<open>{\<close>. The first argument bounds the number of nested
  calls; \<open>JSON_parse\<close> starts it above the length of the text.
\<close>

fun parse_value :: "nat \<Rightarrow> jsstring \<Rightarrow> (json \<times> jsstring) option"
  and parse_elements :: "nat \<Rightarrow> jsstring \<Rightarrow> (json list \<times> jsstring) option"
  and parse_members :: "nat \<Rightarrow> jsstring \<Rightarrow> ((jsstring \<times> json) list \<times> jsstring) option"
where
  "parse_value 0 cs = None"
| "parse_value (Suc n) cs =
     (case skip_ws cs of
        [] \<Rightarrow> None
      | c # r \<Rightarrow>
          if c = 0x22 then map_option (apfst JStr) (parse_string_body r)
          else if c = 0x5B then
            (case skip_ws r of
               [] \<Rightarrow> None
             | d # r' \<Rightarrow>
                 if d = 0x5D then Some (JArr [], r')
                 else map_option (apfst JArr) (parse_elements n r))
          else if c = 0x7B then
            (case skip_ws r of
               [] \<Rightarrow> None
             | d # r' \<Rightarrow>
                 if d = 0x7D then Some (JObj [], r')
                 else map_option (apfst JObj) (parse_members n r))
          else if c = 0x2D \<or> is_digit c then map_option (apfst JNum) (parse_number (c # r))
          else parse_literal (c # r))"
| "parse_elements 0 cs = None"
| "parse_elements (Suc n) cs =
     (case parse_value n cs of
        None \<Rightarrow> None
      | Some (v, r) \<Rightarrow>
          (case skip_ws r of
             [] \<Rightarrow> None
           | d # r' \<Rightarrow>
               if d = 0x2C then map_option (apfst ((#) v)) (parse_elements n r')
               else if d = 0x5D then Some ([v], r')
               else None))"
| "parse_members 0 cs = None"
| "parse_members (Suc n) cs =
     (case skip_ws cs of
        [] \<Rightarrow> None
      | q # r \<Rightarrow>
          if q \<noteq> 0x22 then None
          else
            (case parse_string_body r of
               None \<Rightarrow> None
             | Some (k, r1) \<Rightarrow>
                 (case skip_ws r1 of
                    [] \<Rightarrow> None
                  | col # r2 \<Rightarrow>
                      if col \<noteq> 0x3A then None
                      else
                        (case parse_value n r2 of
                           None \<Rightarrow> None
                         | Some (v, r3) \<Rightarrow>
                             (case skip_ws r3 of
                                [] \<Rightarrow> None
                              | d # r4 \<Rightarrow>
                                  if d = 0x2C then
                                    map_option (apfst ((#) (k, v))) (parse_members n r4)
                                  else if d = 0x7D then Some ([(k, v)], r4)
                                  else None)))))"

definition JSON_parse :: "jsstring \<Rightarrow> error + json" where
  "JSON_parse s =
     (case parse_value (2 * length s + 2) s of
        None \<Rightarrow> Inl SyntaxError
      | Some (v, r) \<Rightarrow> if skip_ws r = [] then Inr v else Inl SyntaxError)"

text \<open>
  Reading a property that no prototype defines (\<open>route\<close>, \<open>nonce\<close>, \<open>state\<close>): a
  TypeError on \<open>null\<close>, the member of an object (the last one of that name),
  \<open>undefined\<close> on any other value.
\<close>

fun get_property :: "json \<Rightarrow> jsstring \<Rightarrow> error + jsval" where
  "get_property JNull k = Inl TypeError"
| "get_property (JObj ms) k = Inr (map_of (rev ms) k)"
| "get_property v k = Inr None"

section \<open>Built-ins and the cookie library: URI components, cookies\<close>

subsection \<open>\<open>encodeURIComponent\<close> and \<open>decodeURIComponent\<close>\<close>

definition uri_unreserved :: "code_unit \<Rightarrow> bool" where
  "uri_unreserved c \<longleftrightarrow>
     (0x41 \<le> c \<and> c \<le> 0x5A) \<or> (0x61 \<le> c \<and> c \<le> 0x7A) \<or> (0x30 \<le> c \<and> c \<le> 0x39)
     \<or> c = 0x2D \<or> c = 0x5F \<or> c = 0x2E \<or> c = 0x21 \<or> c = 0x7E
     \<or> c = 0x2A \<or> c = 0x27 \<or> c = 0x28 \<or> c = 0x29"

text \<open>The characters \<open>encodeURIComponent\<close> writes: the unreserved ones and the percent sign.\<close>

definition uri_char :: "code_unit \<Rightarrow> bool" where
  "uri_char c \<longleftrightarrow> uri_unreserved c \<or> c = 0x25"

definition upper_hex_digit :: "nat \<Rightarrow> code_unit" where
  "upper_hex_digit n = str ''0123456789ABCDEF'' ! n"

definition percent_encode_byte :: "byte \<Rightarrow> jsstring" where
  "percent_encode_byte b = [0x25, upper_hex_digit (unat b div 16), upper_hex_digit (unat b mod 16)]"

definition percent_encode_code_point :: "nat \<Rightarrow> jsstring" where
  "percent_encode_code_point cp = concat (map percent_encode_byte (utf8_of_code_point cp))"

text \<open>\<open>encodeURIComponent\<close> throws a URIError on a surrogate that is not half of a pair.\<close>

fun encodeURIComponent :: "jsstring \<Rightarrow> error + jsstring" where
  "encodeURIComponent [] = Inr []"
| "encodeURIComponent (c # cs) =
     (if uri_unreserved c then map_sum id ((#) c) (encodeURIComponent cs)
      else if is_trail c then Inl URIError
      else if is_lead c then
        (case cs of
           [] \<Rightarrow> Inl URIError
         | d # ds \<Rightarrow>
             if is_trail d then
               map_sum id ((@) (percent_encode_code_point (pair_code_point c d)))
                 (encodeURIComponent ds)
             else Inl URIError)
      else map_sum id ((@) (percent_encode_code_point (unat c))) (encodeURIComponent cs))"

text \<open>
  \<open>decodeURIComponent\<close>: every \<open>%XX\<close> is a byte, and the bytes must be the UTF-8
  encoding of code points, in shortest form and outside the surrogates. \<open>None\<close> is the
  URIError.
\<close>

fun percent_tokens :: "jsstring \<Rightarrow> (byte + code_unit) list option" where
  "percent_tokens [] = Some []"
| "percent_tokens (c # cs) =
     (if c = 0x25 then
        (case cs of
           h1 # h2 # r \<Rightarrow>
             (case (hex_val h1, hex_val h2) of
                (Some a, Some b) \<Rightarrow>
                  map_option ((#) (Inl (of_nat (a * 16 + b)))) (percent_tokens r)
              | _ \<Rightarrow> None)
         | _ \<Rightarrow> None)
      else map_option ((#) (Inr c)) (percent_tokens cs))"

definition is_cont :: "byte \<Rightarrow> bool" where
  "is_cont b \<longleftrightarrow> 0x80 \<le> b \<and> b \<le> 0xBF"

fun decode_tokens :: "(byte + code_unit) list \<Rightarrow> jsstring option" where
  "decode_tokens [] = Some []"
| "decode_tokens (Inr c # ts) = map_option ((#) c) (decode_tokens ts)"
| "decode_tokens (Inl b # ts) =
     (if b < 0x80 then map_option ((#) (of_nat (unat b))) (decode_tokens ts)
      else if 0xC2 \<le> b \<and> b \<le> 0xDF then
        (case ts of
           Inl b1 # r \<Rightarrow>
             if is_cont b1 then
               map_option ((@) (utf16_of_code_point (unat b mod 32 * 64 + unat b1 mod 64)))
                 (decode_tokens r)
             else None
         | _ \<Rightarrow> None)
      else if 0xE0 \<le> b \<and> b \<le> 0xEF then
        (case ts of
           Inl b1 # Inl b2 # r \<Rightarrow>
             if (if b = 0xE0 then 0xA0 else 0x80) \<le> b1
                \<and> b1 \<le> (if b = 0xED then 0x9F else 0xBF) \<and> is_cont b2 then
               map_option
                 ((@) (utf16_of_code_point
                        ((unat b mod 16 * 64 + unat b1 mod 64) * 64 + unat b2 mod 64)))
                 (decode_tokens r)
             else None
         | _ \<Rightarrow> None)
      else if 0xF0 \<le> b \<and> b \<le> 0xF4 then
        (case ts of
           Inl b1 # Inl b2 # Inl b3 # r \<Rightarrow>
             if (if b = 0xF0 then 0x90 else 0x80) \<le> b1
                \<and> b1 \<le> (if b = 0xF4 then 0x8F else 0xBF) \<and> is_cont b2 \<and> is_cont b3 then
               map_option
                 ((@) (utf16_of_code_point
                        (((unat b mod 8 * 64 + unat b1 mod 64) * 64 + unat b2 mod 64) * 64
                         + unat b3 mod 64)))
                 (decode_tokens r)
             else None
         | _ \<Rightarrow> None)
      else None)"

definition decodeURIComponent :: "jsstring \<Rightarrow> jsstring option" where
  "decodeURIComponent s =
     (case percent_tokens s of None \<Rightarrow> None | Some ts \<Rightarrow> decode_tokens ts)"

subsection \<open>\<open>cookie.serialize\<close>\<close>

text \<open>The library's \<open>fieldContentRegExp\<close>: one or more of tab, 0x20 to 0x7E, 0x80 to 0xFF.\<close>

definition field_content :: "jsstring \<Rightarrow> bool" where
  "field_content s \<longleftrightarrow>
     s \<noteq> [] \<and> list_all (\<lambda>c. c = 0x09 \<or> (0x20 \<le> c \<and> c \<le> 0x7E) \<or> (0x80 \<le> c \<and> c \<le> 0xFF)) s"

text \<open>
  The source passes \<open>maxAge\<close> as a number or as a \<open>Date\<close>; the library computes
  \<open>opt.maxAge - 0\<close>, which for a \<open>Date\<close> is its time value in milliseconds, and writes
  the floor of it, in decimal, after \<open>Max-Age=\<close>. The attribute is a number of seconds.
\<close>

datatype max_age = MaxAgeNumber int | MaxAgeDate int

fun max_age_number :: "max_age \<Rightarrow> int" where
  "max_age_number (MaxAgeNumber n) = n"
| "max_age_number (MaxAgeDate ms) = ms"

function decimal :: "nat \<Rightarrow> jsstring" where
  "decimal n =
     (if n < 10 then [of_nat (0x30 + n)]
      else decimal (n div 10) @ [of_nat (0x30 + n mod 10)])"
  by pat_completeness auto
termination
  by (relation "measure id") auto

declare decimal.simps [simp del]

definition number_to_string :: "int \<Rightarrow> jsstring" where
  "number_to_string i = (if i < 0 then 0x2D # decimal (nat (- i)) else decimal (nat i))"

record cookie_options =
  secure :: bool
  path :: jsstring
  maxAge :: max_age
  httpOnly :: "bool option"

definition cookie_serialize :: "jsstring \<Rightarrow> jsstring \<Rightarrow> cookie_options \<Rightarrow> error + jsstring" where
  "cookie_serialize name val opt =
     (if \<not> field_content name then Inl TypeError
      else case encodeURIComponent val of
             Inl e \<Rightarrow> Inl e
           | Inr v \<Rightarrow>
               if v \<noteq> [] \<and> \<not> field_content v then Inl TypeError
               else if path opt \<noteq> [] \<and> \<not> field_content (path opt) then Inl TypeError
               else Inr (name @ [0x3D] @ v
                         @ str ''; Max-Age='' @ number_to_string (max_age_number (maxAge opt))
                         @ (if path opt \<noteq> [] then str ''; Path='' @ path opt else [])
                         @ (if httpOnly opt = Some True then str ''; HttpOnly'' else [])
                         @ (if secure opt then str ''; Secure'' else [])))"

subsection \<open>\<open>cookie.parse\<close>\<close>

fun split_on :: "code_unit \<Rightarrow> jsstring \<Rightarrow> jsstring \<Rightarrow> jsstring list" where
  "split_on sep cur [] = [cur]"
| "split_on sep cur (c # cs) =
     (if c = sep then cur # split_on sep [] cs else split_on sep (cur @ [c]) cs)"

text \<open>\<open>str.split(/; */)\<close>: the pieces between semicolons, without the spaces after one.\<close>

definition cookie_pairs :: "jsstring \<Rightarrow> jsstring list" where
  "cookie_pairs s =
     (case split_on 0x3B [] s of
        [] \<Rightarrow> []
      | p # ps \<Rightarrow> p # map (dropWhile (\<lambda>c. c = 0x20)) ps)"

definition js_whitespace :: "code_unit \<Rightarrow> bool" where
  "js_whitespace c \<longleftrightarrow>
     (0x09 \<le> c \<and> c \<le> 0x0D) \<or> c = 0x20 \<or> c = 0xA0 \<or> c = 0x1680
     \<or> (0x2000 \<le> c \<and> c \<le> 0x200A) \<or> c = 0x2028 \<or> c = 0x2029 \<or> c = 0x202F
     \<or> c = 0x205F \<or> c = 0x3000 \<or> c = 0xFEFF"

definition trim :: "jsstring \<Rightarrow> jsstring" where
  "trim s = rev (dropWhile js_whitespace (rev (dropWhile js_whitespace s)))"

definition tryDecode :: "jsstring \<Rightarrow> jsstring" where
  "tryDecode v = (case decodeURIComponent v of None \<Rightarrow> v | Some d \<Rightarrow> d)"

definition cookie_pair :: "jsstring \<Rightarrow> (jsstring \<times> jsstring) option" where
  "cookie_pair p =
     (if list_all (\<lambda>c. c \<noteq> 0x3D) p then None
      else
        (let key = trim (takeWhile (\<lambda>c. c \<noteq> 0x3D) p);
             val = trim (tl (dropWhile (\<lambda>c. c \<noteq> 0x3D) p));
             val' = (case val of
                       [] \<Rightarrow> val
                     | q # r \<Rightarrow> if q = 0x22 then butlast r else val)
         in Some (key, tryDecode val')))"

text \<open>
  The pairs in the order of the header. The library keeps the first value of a name, as
  \<open>map_of\<close> does.
\<close>

definition cookie_parse :: "jsstring \<Rightarrow> (jsstring \<times> jsstring) list" where
  "cookie_parse s = List.map_filter cookie_pair (cookie_pairs s)"

section \<open>Session token minting\<close>

definition NETLIFY_JWT_EXPIRATION_SECONDS :: int where
  "NETLIFY_JWT_EXPIRATION_SECONDS = 14 * 24 * 3600"

record tokenData =
  aud :: jsval
  sub :: jsval
  groups :: jsval

record authorization =
  roles :: jsval

record app_metadata =
  authorization :: authorization

record tokenPayload =
  exp :: int
  iat :: int
  updated_at :: int
  aud :: jsval
  sub :: jsval
  app_metadata :: app_metadata

datatype algorithm = HS256

record sign_header =
  jwt_typ :: jsstring

record sign_options =
  algorithm :: algorithm
  header :: sign_header

text \<open>
  \<open>JWT.sign\<close> of the jose library is a collaborator: a function from the payload, the
  secret and the options to a compact token, or an error.
\<close>

type_synonym signer = "tokenPayload \<Rightarrow> jsstring option \<Rightarrow> sign_options \<Rightarrow> error + jsstring"

text \<open>
  Lines 21 to 36 of \<open>generateNetlifyJWT\<close>. \<open>now\<close> is the value of \<open>Date.now()\<close>, an
  integer number of milliseconds; \<open>Math.floor(now / 1000)\<close> is \<open>now div 1000\<close>, which
  rounds towards minus infinity as \<open>Math.floor\<close> does. \<open>iat + 1209600\<close> is an integer,
  so the second \<open>Math.floor\<close> leaves it as it is.
\<close>

definition netlifyTokenPayload :: "int \<Rightarrow> tokenData \<Rightarrow> tokenPayload" where
  "netlifyTokenPayload now td =
     (let iat = now div 1000;
          exp = iat + NETLIFY_JWT_EXPIRATION_SECONDS
      in \<lparr> exp = exp,
           iat = iat,
           updated_at = iat,
           aud = tokenData.aud td,
           sub = tokenData.sub td,
           app_metadata = \<lparr> authorization = \<lparr> roles = groups td \<rparr> \<rparr> \<rparr>)"

definition generateNetlifyJWT ::
  "signer \<Rightarrow> jsstring option \<Rightarrow> int \<Rightarrow> tokenData \<Rightarrow> error + jsstring" where
  "generateNetlifyJWT sign TOKEN_SECRET now td =
     sign (netlifyTokenPayload now td) TOKEN_SECRET
       \<lparr> algorithm = HS256, header = \<lparr> jwt_typ = str ''JWT'' \<rparr> \<rparr>"

section \<open>Configuration and collaborators\<close>

text \<open>
  The variables of \<open>process.env\<close> the source reads; \<open>None\<close> is a variable that is not
  set. In a template literal such a value reads \<open>undefined\<close>.
\<close>

record env =
  CROSSID_DOMAIN :: "jsstring option"
  CROSSID_CLIENT_ID :: "jsstring option"
  URL :: "jsstring option"
  TOKEN_SECRET :: "jsstring option"
  NETLIFY_DEV :: "jsstring option"

definition to_string :: "jsstring option \<Rightarrow> jsstring" where
  "to_string v = (case v of None \<Rightarrow> str ''undefined'' | Some s \<Rightarrow> s)"

definition LOGIN_COOKIE_MAX_AGE :: int where
  "LOGIN_COOKIE_MAX_AGE = 30 * 60 * 1000"

definition CROSSID_LOGIN_COOKIE_NAME :: jsstring where
  "CROSSID_LOGIN_COOKIE_NAME = str ''crossid_login_cookie''"

definition NETLIFY_COOKIE_NAME :: jsstring where
  "NETLIFY_COOKIE_NAME = str ''nf_jwt''"

definition isRunningLocally :: "env \<Rightarrow> bool" where
  "isRunningLocally e \<longleftrightarrow> NETLIFY_DEV e = Some (str ''true'')"

text \<open>What the source passes to the identity-provider client.\<close>

record client_metadata =
  client_id :: "jsstring option"
  redirect_uris :: "jsstring list"
  response_types :: "jsstring list"

record authorization_parameters =
  scope :: jsstring
  response_mode :: jsstring
  nonce :: jsstring
  state :: jsstring

record callback_request =
  request_method :: jsstring
  body :: "jsstring option"
  url :: "jsstring option"

record callback_checks =
  nonce :: jsval
  state :: jsval

text \<open>
  The collaborators: the openid-client library (an issuer \<open>'i\<close>, a client \<open>'c\<close>, callback
  parameters \<open>'p\<close>, a token set \<open>'t\<close>), the signer of the jose library, the random
  \<open>generators.nonce()\<close> (its k-th value in an invocation), the clock \<open>Date.now()\<close>, and
  what \<open>Buffer.from\<close> makes of an array or an object. Each call that can throw or reject
  returns an error or a value.
\<close>

record ('i, 'c, 'p, 't) collaborators =
  discover :: "jsstring \<Rightarrow> error + 'i"
  newClient :: "'i \<Rightarrow> client_metadata \<Rightarrow> error + 'c"
  authorizationUrl :: "'c \<Rightarrow> authorization_parameters \<Rightarrow> error + jsstring"
  callbackParams :: "'c \<Rightarrow> callback_request \<Rightarrow> error + 'p"
  callback :: "'c \<Rightarrow> jsstring \<Rightarrow> 'p \<Rightarrow> callback_checks \<Rightarrow> error + 't"
  claims :: "'t \<Rightarrow> error + tokenData"
  sign :: signer
  generators_nonce :: "nat \<Rightarrow> jsstring"
  Date_now :: int
  bufferFromObject :: "json \<Rightarrow> error + byte list"

text \<open>
  An invocation either throws or returns, and it calls collaborators on the way: the
  outcome carries the calls in the order they were made.
\<close>

datatype call =
    Discover jsstring
  | NewClient
  | AuthorizationUrl
  | CallbackParams
  | Callback
  | Claims
  | Sign

type_synonym 'a outcome = "(error + 'a) \<times> call list"

definition ret :: "'a \<Rightarrow> 'a outcome" where
  "ret x = (Inr x, [])"

definition throw :: "error \<Rightarrow> 'a outcome" where
  "throw e = (Inl e, [])"

definition lift :: "error + 'a \<Rightarrow> 'a outcome" where
  "lift r = (r, [])"

definition called :: "call \<Rightarrow> error + 'a \<Rightarrow> 'a outcome" where
  "called c r = (r, [c])"

definition and_then :: "'a outcome \<Rightarrow> ('a \<Rightarrow> 'b outcome) \<Rightarrow> 'b outcome" where
  "and_then m f =
     (case m of
        (Inl e, l) \<Rightarrow> (Inl e, l)
      | (Inr x, l) \<Rightarrow> (case f x of (r, l') \<Rightarrow> (r, l @ l')))"

section \<open>The functions of AuthUtils.js\<close>

definition callback_uri :: "env \<Rightarrow> jsstring" where
  "callback_uri e = to_string (URL e) @ str ''/.netlify/functions/callback''"

definition getOpenIDClient :: "('i, 'c, 'p, 't) collaborators \<Rightarrow> env \<Rightarrow> 'c outcome" where
  "getOpenIDClient co e =
     (let issuer_url = str ''https://'' @ to_string (CROSSID_DOMAIN e) in
      and_then (called (Discover issuer_url) (discover co issuer_url)) (\<lambda>issuer.
      called NewClient
        (newClient co issuer
           \<lparr> client_id = CROSSID_CLIENT_ID e,
             redirect_uris = [callback_uri e],
             response_types = [str ''id_token''] \<rparr>)))"

definition generateNetlifyJWT_called ::
  "('i, 'c, 'p, 't) collaborators \<Rightarrow> env \<Rightarrow> tokenData \<Rightarrow> jsstring outcome" where
  "generateNetlifyJWT_called co e td =
     called Sign (generateNetlifyJWT (sign co) (TOKEN_SECRET e) (Date_now co) td)"

definition generateCrossIdLoginCookie :: "env \<Rightarrow> jsstring \<Rightarrow> jsstring \<Rightarrow> error + jsstring" where
  "generateCrossIdLoginCookie e = (\<lambda>nonce encodedStateStr.
     cookie_serialize CROSSID_LOGIN_COOKIE_NAME
       (JSON_stringify [(str ''nonce'', nonce), (str ''state'', encodedStateStr)])
       \<lparr> secure = \<not> isRunningLocally e,
         path = str ''/'',
         maxAge = MaxAgeNumber LOGIN_COOKIE_MAX_AGE,
         httpOnly = Some True \<rparr>)"

text \<open>
  \<open>generateEncodedStateString\<close>; the first argument is the value of \<open>generators.nonce()\<close>
  at line 60. \<open>route || '/'\<close> is \<open>'/'\<close> when the route is \<open>undefined\<close> or empty.
\<close>

definition route_or_root :: "jsstring option \<Rightarrow> jsstring" where
  "route_or_root route =
     (case route of
        None \<Rightarrow> str ''/''
      | Some r \<Rightarrow> if r = [] then str ''/'' else r)"

definition generateEncodedStateString :: "jsstring \<Rightarrow> jsstring option \<Rightarrow> jsstring" where
  "generateEncodedStateString fresh_nonce route =
     (let stateBuffer =
            utf8_encode
              (JSON_stringify [(str ''route'', route_or_root route), (str ''nonce'', fresh_nonce)])
      in base64_encode stateBuffer)"

definition generateCrossIdLoginResetCookie :: "env \<Rightarrow> error + jsstring" where
  "generateCrossIdLoginResetCookie e =
     cookie_serialize CROSSID_LOGIN_COOKIE_NAME []
       \<lparr> secure = \<not> isRunningLocally e,
         path = str ''/'',
         maxAge = MaxAgeDate 0,
         httpOnly = Some True \<rparr>"

definition generateLogoutCookie :: "env \<Rightarrow> error + jsstring" where
  "generateLogoutCookie e =
     cookie_serialize NETLIFY_COOKIE_NAME []
       \<lparr> secure = \<not> isRunningLocally e,
         path = str ''/'',
         maxAge = MaxAgeDate 0,
         httpOnly = Some True \<rparr>"

definition generateNetlifyCookieFromCrossIdToken ::
  "('i, 'c, 'p, 't) collaborators \<Rightarrow> env \<Rightarrow> tokenData \<Rightarrow> jsstring outcome" where
  "generateNetlifyCookieFromCrossIdToken co e td =
     and_then (generateNetlifyJWT_called co e td) (\<lambda>netlifyToken.
     lift (cookie_serialize NETLIFY_COOKIE_NAME netlifyToken
             \<lparr> secure = \<not> isRunningLocally e,
               path = str ''/'',
               maxAge = MaxAgeNumber NETLIFY_JWT_EXPIRATION_SECONDS,
               httpOnly = None \<rparr>))"

definition generateCrossIdLogoutUrl :: "env \<Rightarrow> error + jsstring" where
  "generateCrossIdLogoutUrl e =
     (let crossidDomainLogout = str ''https://'' @ to_string (CROSSID_DOMAIN e) @ str ''/v2/logout'' in
      case encodeURIComponent (to_string (URL e)) of
        Inl err \<Rightarrow> Inl err
      | Inr encoded \<Rightarrow>
          (let urlReturnTo = str ''returnTo='' @ encoded;
               urlClientId = str ''client_id='' @ to_string (CROSSID_CLIENT_ID e)
           in Inr (crossidDomainLogout @ str ''?'' @ urlReturnTo @ str ''&'' @ urlClientId)))"

subsection \<open>Requests and responses\<close>

record event_headers =
  referer :: "jsstring option"
  cookie :: "jsstring option"
  host :: "jsstring option"

record event =
  headers :: "event_headers option"
  body :: "jsstring option"

text \<open>
  A response: the status code, the \<open>headers\<close> object and the \<open>multiValueHeaders\<close>
  object, each with its properties in the order of the source.
\<close>

record response =
  statusCode :: nat
  headers :: "(string \<times> jsval) list"
  multiValueHeaders :: "(string \<times> jsstring list) list"

subsection \<open>\<open>handleLogin\<close>\<close>

definition handleLogin ::
  "('i, 'c, 'p, 't) collaborators \<Rightarrow> env \<Rightarrow> event option \<Rightarrow> response outcome" where
  "handleLogin co e ev =
     (case ev of
        None \<Rightarrow> throw (Error ''Malformed event'')
      | Some event \<Rightarrow>
          (case event.headers event of
             None \<Rightarrow> throw (Error ''Malformed event'')
           | Some hs \<Rightarrow>
               and_then (getOpenIDClient co e) (\<lambda>openIDClient.
               let referer = referer hs;
                   nonce = generators_nonce co 0;
                   state = generateEncodedStateString (generators_nonce co 1) referer
               in
               and_then (called AuthorizationUrl
                          (authorizationUrl co openIDClient
                             \<lparr> scope = str ''openid email profile'',
                               response_mode = str ''form_post'',
                               nonce = nonce,
                               state = state \<rparr>)) (\<lambda>authRedirectURL.
               and_then (lift (generateCrossIdLoginCookie e nonce state)) (\<lambda>loginCookie.
               ret \<lparr> statusCode = 302,
                     headers = [(''Location'', Some (JStr authRedirectURL)),
                                (''Cache-Control'', Some (JStr (str ''no-cache''))),
                                (''Set-Cookie'', Some (JStr loginCookie))],
                     multiValueHeaders = [] \<rparr>)))))"

subsection \<open>\<open>handleCallback\<close>\<close>

text \<open>
  \<open>Buffer.from(state, 'base64')\<close>: a string is decoded; an array or an object is left
  to the collaborator; \<open>undefined\<close>, \<open>null\<close>, a boolean or a number is a TypeError.
\<close>

definition Buffer_from_base64 :: "(json \<Rightarrow> error + byte list) \<Rightarrow> jsval \<Rightarrow> error + byte list" where
  "Buffer_from_base64 fromObject v =
     (case v of
        Some (JStr s) \<Rightarrow> Inr (base64_decode s)
      | Some (JArr a) \<Rightarrow> fromObject (JArr a)
      | Some (JObj ms) \<Rightarrow> fromObject (JObj ms)
      | _ \<Rightarrow> Inl TypeError)"

text \<open>Lines 163 and 164: the flow state is decoded from base64 and parsed.\<close>

definition decodeState :: "(json \<Rightarrow> error + byte list) \<Rightarrow> jsval \<Rightarrow> error + json" where
  "decodeState fromObject = (\<lambda>state.
     case Buffer_from_base64 fromObject state of
       Inl err \<Rightarrow> Inl err
     | Inr buff \<Rightarrow> JSON_parse (utf8_decode buff))"

definition handleCallback ::
  "('i, 'c, 'p, 't) collaborators \<Rightarrow> env \<Rightarrow> event option \<Rightarrow> response outcome" where
  "handleCallback co e ev =
     (case ev of
        None \<Rightarrow> throw (Error ''Invalid request'')
      | Some event \<Rightarrow>
          (case event.headers event of
             None \<Rightarrow> throw (Error ''Invalid request'')
           | Some hs \<Rightarrow>
               (case cookie hs of
                  None \<Rightarrow> throw (Error ''Invalid request'')
                | Some cookie_header \<Rightarrow>
                    if cookie_header = [] then throw (Error ''Invalid request'')
                    else
                      and_then (getOpenIDClient co e) (\<lambda>openIDClient.
                      let loginCookie = map_of (cookie_parse cookie_header) CROSSID_LOGIN_COOKIE_NAME
                      in
                      and_then (lift (JSON_parse (to_string loginCookie))) (\<lambda>parsed.
                      and_then (lift (get_property parsed (str ''nonce''))) (\<lambda>nonce.
                      and_then (lift (get_property parsed (str ''state''))) (\<lambda>state.
                      let req = \<lparr> request_method = str ''POST'', body = event.body event, url = host hs \<rparr>
                      in
                      and_then (called CallbackParams (callbackParams co openIDClient req)) (\<lambda>params.
                      and_then (called Callback
                                 (callback co openIDClient (callback_uri e) params
                                    \<lparr> nonce = nonce, state = state \<rparr>)) (\<lambda>tokenSet.
                      and_then (called Claims (claims co tokenSet)) (\<lambda>tokenData.
                      and_then (generateNetlifyCookieFromCrossIdToken co e tokenData) (\<lambda>netlifyCookie.
                      and_then (lift (generateCrossIdLoginResetCookie e)) (\<lambda>crossidLoginCookie.
                      and_then (lift (decodeState (bufferFromObject co) state)) (\<lambda>decodedState.
                      and_then (lift (get_property decodedState (str ''route''))) (\<lambda>route.
                      ret \<lparr> statusCode = 302,
                            headers = [(''Location'', route),
                                       (''Cache-Control'', Some (JStr (str ''no-cache'')))],
                            multiValueHeaders =
                              [(''Set-Cookie'', [netlifyCookie, crossidLoginCookie])] \<rparr>
                      ))))))))))))))"

subsection \<open>\<open>handleLogout\<close>\<close>

text \<open>
  The handler declares no parameter: whatever it is invoked with, a request or nothing,
  is not read.
\<close>

definition handleLogout :: "env \<Rightarrow> event option \<Rightarrow> response outcome" where
  "handleLogout e ev =
     and_then (lift (generateCrossIdLogoutUrl e)) (\<lambda>logoutUrl.
     and_then (lift (generateLogoutCookie e)) (\<lambda>logoutCookie.
     ret \<lparr> statusCode = 302,
           headers = [(''Location'', Some (JStr logoutUrl)),
                      (''Cache-Control'', Some (JStr (str ''no-cache''))),
                      (''Set-Cookie'', Some (JStr logoutCookie))],
           multiValueHeaders = [] \<rparr>))"

section \<open>An example deployment\<close>

text \<open>
  A configuration, a provider and requests: the concrete inputs at which the properties
  below are evaluated. The provider's client takes the body of the request as the
  callback parameters and accepts a callback when the state to check is the state posted
  in the body (what follows \<open>id_token=t&state=\<close>) and the nonce to check is \<open>n0\<close>, the
  nonce of its tokens; its signer returns a fixed compact token, and the random nonces
  are \<open>n0\<close> and \<open>n1\<close>.
\<close>

definition example_env :: env where
  "example_env =
     \<lparr> CROSSID_DOMAIN = Some (str ''idp.example''),
       CROSSID_CLIENT_ID = Some (str ''client''),
       URL = Some (str ''https://app.example''),
       TOKEN_SECRET = Some (str ''secret''),
       NETLIFY_DEV = None \<rparr>"

definition example_provider :: "(unit, unit, jsstring, unit) collaborators" where
  "example_provider =
     \<lparr> discover = (\<lambda>issuer_url. Inr ()),
       newClient = (\<lambda>issuer metadata. Inr ()),
       authorizationUrl = (\<lambda>client p.
         Inr (str ''https://idp.example/authorize?nonce='' @ authorization_parameters.nonce p
              @ str ''&state='' @ authorization_parameters.state p)),
       callbackParams = (\<lambda>client req.
         case callback_request.body req of None \<Rightarrow> Inl TypeError | Some posted \<Rightarrow> Inr posted),
       callback = (\<lambda>client redirect_uri params checks.
         if callback_checks.state checks = Some (JStr (drop 17 params))
            \<and> callback_checks.nonce checks = Some (JStr (str ''n0''))
         then Inr ()
         else Inl (ProviderError ''mismatch'')),
       claims = (\<lambda>tokenSet.
         Inr \<lparr> tokenData.aud = Some (JStr (str ''A'')),
               tokenData.sub = Some (JStr (str ''S'')),
               groups = Some (JArr [JStr (str ''g1''), JStr (str ''g2'')]) \<rparr>),
       sign = (\<lambda>payload secret options. Inr (str ''h.p.s'')),
       generators_nonce = (\<lambda>k. if k = 0 then str ''n0'' else str ''n1''),
       Date_now = 1600000000123,
       bufferFromObject = (\<lambda>v. Inl TypeError) \<rparr>"

definition login_request :: event where
  "login_request =
     \<lparr> event.headers =
         Some \<lparr> referer = Some (str ''https://app.example/dashboard''),
                cookie = None,
                host = Some (str ''app.example'') \<rparr>,
       body = None \<rparr>"

definition callback_event :: "jsstring \<Rightarrow> jsstring \<Rightarrow> event" where
  "callback_event cookie_header posted_state =
     \<lparr> event.headers =
         Some \<lparr> referer = None,
                cookie = Some cookie_header,
                host = Some (str ''app.example'') \<rparr>,
       body = Some (str ''id_token=t&state='' @ posted_state) \<rparr>"

definition dashboard_cookie :: jsstring where
  "dashboard_cookie =
     str ''crossid_login_cookie=%7B%22nonce%22%3A%22n0%22%2C%22state%22%3A%22eyJyb3V0ZSI6Ii9kYXNoYm9hcmQiLCJub25jZSI6Im4xIn0%3D%22%7D''"

definition undecodable_state_cookie :: jsstring where
  "undecodable_state_cookie =
     str ''crossid_login_cookie=%7B%22nonce%22%3A%22n0%22%2C%22state%22%3A%22x%22%7D''"

definition empty_route_cookie :: jsstring where
  "empty_route_cookie =
     str ''crossid_login_cookie=%7B%22nonce%22%3A%22n0%22%2C%22state%22%3A%22eyJyb3V0ZSI6IiIsIm5vbmNlIjoieCJ9%22%7D''"

definition root_route_cookie :: jsstring where
  "root_route_cookie =
     str ''crossid_login_cookie=%7B%22nonce%22%3A%22n0%22%2C%22state%22%3A%22eyJyb3V0ZSI6Ii8iLCJub25jZSI6Im4xIn0%3D%22%7D''"

definition login_response :: response where
  "login_response =
     \<lparr> statusCode = 302,
       headers =
         [(''Location'',
           Some (JStr (str ''https://idp.example/authorize?nonce=n0&state=eyJyb3V0ZSI6Imh0dHBzOi8vYXBwLmV4YW1wbGUvZGFzaGJvYXJkIiwibm9uY2UiOiJuMSJ9''))),
          (''Cache-Control'', Some (JStr (str ''no-cache''))),
          (''Set-Cookie'',
           Some (JStr (str ''crossid_login_cookie=%7B%22nonce%22%3A%22n0%22%2C%22state%22%3A%22eyJyb3V0ZSI6Imh0dHBzOi8vYXBwLmV4YW1wbGUvZGFzaGJvYXJkIiwibm9uY2UiOiJuMSJ9%22%7D; Max-Age=1800000; Path=/; HttpOnly; Secure'')))],
       multiValueHeaders = [] \<rparr>"

section \<open>Arithmetic of the encodings\<close>

lemma unat_byte_less: "unat (b :: byte) < 256"
  using unsigned_less [of b, where 'a = nat] by simp

lemma unat_unit_less: "unat (c :: code_unit) < 65536"
  using unsigned_less [of c, where 'a = nat] by simp

lemma byte_of_nat_unat: "n < 256 \<Longrightarrow> unat (of_nat n :: byte) = n"
  by (simp add: unat_of_nat)

lemma unit_of_nat_unat: "n < 65536 \<Longrightarrow> unat (of_nat n :: code_unit) = n"
  by (simp add: unat_of_nat)

lemma byte_add_unat: "x < k \<Longrightarrow> n + k \<le> 256 \<Longrightarrow> unat (of_nat (n + x) :: byte) = n + x"
  by (rule byte_of_nat_unat) simp

lemma mod_lead: "x < m \<Longrightarrow> (k * m + x) mod m = (x::nat)"
  by simp

lemma div64_split: "cp div 4096 * 64 + cp div 64 mod 64 = (cp::nat) div 64"
proof -
  have "cp div 4096 = cp div 64 div 64" by (simp add: div_mult2_eq)
  then show ?thesis by simp
qed

lemma div4096_split: "cp div 262144 * 64 + cp div 4096 mod 64 = (cp::nat) div 4096"
proof -
  have "cp div 262144 = cp div 4096 div 64" by (simp add: div_mult2_eq)
  then show ?thesis by simp
qed

lemma three_byte_low: "0x800 \<le> cp \<Longrightarrow> cp div 4096 = 0 \<Longrightarrow> 32 \<le> cp div 64 mod (64::nat)"
proof -
  assume a: "0x800 \<le> cp" "cp div 4096 = 0"
  have "32 \<le> cp div 64" using a by simp
  then show ?thesis using div64_split [of cp] a(2) by simp
qed

lemma three_byte_surrogate:
  "\<not> (0xD800 \<le> cp \<and> cp \<le> 0xDFFF) \<Longrightarrow> cp div 4096 = 13 \<Longrightarrow> cp div 64 mod 64 \<le> (31::nat)"
proof -
  assume a: "\<not> (0xD800 \<le> cp \<and> cp \<le> 0xDFFF)" "cp div 4096 = 13"
  have "cp div 4096 < 14" using a(2) by simp
  then have "cp < 14 * 4096" by (simp only: div_less_iff_less_mult)
  moreover have "13 * 4096 \<le> cp" using a(2) by simp
  ultimately have "cp < 0xD800" using a(1) by simp
  then have "cp div 64 < 864" by simp
  then show ?thesis using div64_split [of cp] a(2) by simp
qed

lemma four_byte_low: "0x10000 \<le> cp \<Longrightarrow> cp div 262144 = 0 \<Longrightarrow> 16 \<le> cp div 4096 mod (64::nat)"
proof -
  assume a: "0x10000 \<le> cp" "cp div 262144 = 0"
  have "16 \<le> cp div 4096" using a by simp
  then show ?thesis using div4096_split [of cp] a(2) by simp
qed

lemma four_byte_high: "cp < 0x110000 \<Longrightarrow> cp div 262144 = 4 \<Longrightarrow> cp div 4096 mod 64 \<le> (15::nat)"
proof -
  assume a: "cp < 0x110000" "cp div 262144 = 4"
  have "cp div 4096 < 272" using a by simp
  then show ?thesis using div4096_split [of cp] a(2) by simp
qed

section \<open>UTF-8: decoding what was encoded\<close>

lemma is_lead_unat: "is_lead c \<longleftrightarrow> 0xD800 \<le> unat c \<and> unat c \<le> 0xDBFF"
  by (simp add: is_lead_def word_le_nat_alt)

lemma is_trail_unat: "is_trail c \<longleftrightarrow> 0xDC00 \<le> unat c \<and> unat c \<le> 0xDFFF"
  by (simp add: is_trail_def word_le_nat_alt)

lemma utf8_lead_1: "a < 128 \<Longrightarrow> utf8_lead a = ([a], utf8_initial)"
  by (simp add: utf8_lead_def)

lemma utf8_lead_2:
  "2 \<le> a \<Longrightarrow> a < 32 \<Longrightarrow>
   utf8_lead (192 + a) = ([], utf8_initial \<lparr> code_point := a, bytes_needed := 1 \<rparr>)"
  using mod_lead [of a 32 6] by (simp add: utf8_lead_def)

lemma utf8_lead_3:
  "a < 16 \<Longrightarrow>
   utf8_lead (224 + a) =
     ([], utf8_initial \<lparr> code_point := a, bytes_needed := 2,
            lower_boundary := (if a = 0 then 0xA0 else 0x80),
            upper_boundary := (if a = 13 then 0x9F else 0xBF) \<rparr>)"
  using mod_lead [of a 16 14] by (simp add: utf8_lead_def)

lemma utf8_lead_4:
  "a < 5 \<Longrightarrow>
   utf8_lead (240 + a) =
     ([], utf8_initial \<lparr> code_point := a, bytes_needed := 3,
            lower_boundary := (if a = 0 then 0x90 else 0x80),
            upper_boundary := (if a = 4 then 0x8F else 0xBF) \<rparr>)"
  using mod_lead [of a 8 30] by (simp add: utf8_lead_def)

lemma utf8_step_lead: "bytes_needed st = 0 \<Longrightarrow> utf8_step st b = utf8_lead b"
  by (simp add: utf8_step_def)

lemma utf8_step_cont:
  assumes "bytes_needed st \<noteq> 0" "x < 64"
    and "lower_boundary st \<le> 128 + x" "128 + x \<le> upper_boundary st"
  shows "utf8_step st (128 + x) =
           (if bytes_seen st + 1 \<noteq> bytes_needed st then
              ([], st \<lparr> code_point := code_point st * 64 + x, bytes_seen := bytes_seen st + 1,
                     lower_boundary := 0x80, upper_boundary := 0xBF \<rparr>)
            else ([code_point st * 64 + x], utf8_initial))"
  using assms mod_lead [of x 64 2] by (simp add: utf8_step_def Let_def)

lemma utf8_run_1:
  assumes "cp < 0x80"
  shows "utf8_run utf8_initial (utf8_of_code_point cp @ bs) = cp # utf8_run utf8_initial bs"
proof -
  have "bytes_needed utf8_initial = 0" by (simp add: utf8_initial_def)
  then show ?thesis
    using assms
    by (simp add: utf8_of_code_point_def byte_of_nat_unat utf8_step_lead utf8_lead_1)
qed

lemma utf8_run_2:
  assumes "0x80 \<le> cp" "cp < 0x800"
  shows "utf8_run utf8_initial (utf8_of_code_point cp @ bs) = cp # utf8_run utf8_initial bs"
proof -
  have b: "cp div 64 < 32" "2 \<le> cp div 64" "cp mod 64 < 64" using assms by simp_all
  have u: "unat (of_nat (192 + cp div 64) :: byte) = 192 + cp div 64"
      "unat (of_nat (128 + cp mod 64) :: byte) = 128 + cp mod 64"
    by (rule byte_add_unat [OF b(1)], simp, rule byte_add_unat [OF b(3)], simp)
  have e: "utf8_of_code_point cp = [of_nat (192 + cp div 64), of_nat (128 + cp mod 64)]"
    using assms by (simp add: utf8_of_code_point_def del: of_nat_add of_nat_numeral)
  have s1: "utf8_step utf8_initial (192 + cp div 64) =
              ([], utf8_initial \<lparr> code_point := cp div 64, bytes_needed := 1 \<rparr>)"
    using b by (simp add: utf8_step_lead utf8_lead_2 utf8_initial_def)
  have s2: "utf8_step (utf8_initial \<lparr> code_point := cp div 64, bytes_needed := 1 \<rparr>) (128 + cp mod 64)
              = ([cp], utf8_initial)"
    using b by (subst utf8_step_cont) (simp_all add: utf8_initial_def)
  show ?thesis
    unfolding e by (simp only: append.simps utf8_run.simps u s1 s2 prod.case)
qed

lemma utf8_run_3:
  assumes "0x800 \<le> cp" "cp < 0x10000" "\<not> (0xD800 \<le> cp \<and> cp \<le> 0xDFFF)"
  shows "utf8_run utf8_initial (utf8_of_code_point cp @ bs) = cp # utf8_run utf8_initial bs"
proof -
  define a x y where "a = cp div 4096" and "x = cp div 64 mod 64" and "y = cp mod 64"
  have b: "a < 16" "x < 64" "y < 64" using assms by (simp_all add: a_def x_def y_def)
  have lo: "a = 0 \<Longrightarrow> 32 \<le> x" and hi: "a = 13 \<Longrightarrow> x \<le> 31"
    using assms three_byte_low [of cp] three_byte_surrogate [of cp] by (simp_all add: a_def x_def)
  have r: "(a * 64 + x) * 64 + y = cp"
    by (simp add: a_def x_def y_def div64_split)
  have u: "unat (of_nat (224 + a) :: byte) = 224 + a"
      "unat (of_nat (128 + x) :: byte) = 128 + x"
      "unat (of_nat (128 + y) :: byte) = 128 + y"
    by (rule byte_add_unat [OF b(1)], simp, rule byte_add_unat [OF b(2)], simp,
        rule byte_add_unat [OF b(3)], simp)
  have e: "utf8_of_code_point cp = [of_nat (224 + a), of_nat (128 + x), of_nat (128 + y)]"
    using assms by (simp add: utf8_of_code_point_def a_def x_def y_def del: of_nat_add of_nat_numeral)
  let ?s1 = "utf8_initial \<lparr> code_point := a, bytes_needed := 2,
            lower_boundary := (if a = 0 then 0xA0 else 0x80),
            upper_boundary := (if a = 13 then 0x9F else 0xBF) \<rparr>"
  let ?s2 = "?s1 \<lparr> code_point := a * 64 + x, bytes_seen := 1,
                     lower_boundary := 0x80, upper_boundary := 0xBF \<rparr>"
  have s1: "utf8_step utf8_initial (224 + a) = ([], ?s1)"
    using b by (simp add: utf8_step_lead utf8_lead_3 utf8_initial_def)
  have s2: "utf8_step ?s1 (128 + x) = ([], ?s2)"
    using b lo hi by (subst utf8_step_cont) (auto simp add: utf8_initial_def)
  have s3: "utf8_step ?s2 (128 + y) = ([cp], utf8_initial)"
    using b r by (subst utf8_step_cont) (simp_all add: utf8_initial_def)
  show ?thesis
    unfolding e by (simp only: append.simps utf8_run.simps u s1 s2 s3 prod.case)
qed

lemma utf8_run_4:
  assumes "0x10000 \<le> cp" "cp < 0x110000"
  shows "utf8_run utf8_initial (utf8_of_code_point cp @ bs) = cp # utf8_run utf8_initial bs"
proof -
  define a x y z where "a = cp div 262144" and "x = cp div 4096 mod 64"
    and "y = cp div 64 mod 64" and "z = cp mod 64"
  have b: "a < 5" "x < 64" "y < 64" "z < 64" using assms by (simp_all add: a_def x_def y_def z_def)
  have lo: "a = 0 \<Longrightarrow> 16 \<le> x" and hi: "a = 4 \<Longrightarrow> x \<le> 15"
    using assms four_byte_low [of cp] four_byte_high [of cp] by (simp_all add: a_def x_def)
  have r: "((a * 64 + x) * 64 + y) * 64 + z = cp"
    by (simp add: a_def x_def y_def z_def div4096_split div64_split)
  have u: "unat (of_nat (240 + a) :: byte) = 240 + a"
      "unat (of_nat (128 + x) :: byte) = 128 + x"
      "unat (of_nat (128 + y) :: byte) = 128 + y"
      "unat (of_nat (128 + z) :: byte) = 128 + z"
    by (rule byte_add_unat [OF b(1)], simp, rule byte_add_unat [OF b(2)], simp,
        rule byte_add_unat [OF b(3)], simp, rule byte_add_unat [OF b(4)], simp)
  have e: "utf8_of_code_point cp =
             [of_nat (240 + a), of_nat (128 + x), of_nat (128 + y), of_nat (128 + z)]"
    using assms
    by (simp add: utf8_of_code_point_def a_def x_def y_def z_def del: of_nat_add of_nat_numeral)
  let ?s1 = "utf8_initial \<lparr> code_point := a, bytes_needed := 3,
            lower_boundary := (if a = 0 then 0x90 else 0x80),
            upper_boundary := (if a = 4 then 0x8F else 0xBF) \<rparr>"
  let ?s2 = "?s1 \<lparr> code_point := a * 64 + x, bytes_seen := 1,
                     lower_boundary := 0x80, upper_boundary := 0xBF \<rparr>"
  let ?s3 = "?s2 \<lparr> code_point := (a * 64 + x) * 64 + y, bytes_seen := 2,
                     lower_boundary := 0x80, upper_boundary := 0xBF \<rparr>"
  have s1: "utf8_step utf8_initial (240 + a) = ([], ?s1)"
    using b by (simp add: utf8_step_lead utf8_lead_4 utf8_initial_def)
  have s2: "utf8_step ?s1 (128 + x) = ([], ?s2)"
    using b lo hi by (subst utf8_step_cont) (auto simp add: utf8_initial_def)
  have s3: "utf8_step ?s2 (128 + y) = ([], ?s3)"
    using b by (subst utf8_step_cont) (simp_all add: utf8_initial_def)
  have s4: "utf8_step ?s3 (128 + z) = ([cp], utf8_initial)"
    using b r by (subst utf8_step_cont) (simp_all add: utf8_initial_def)
  show ?thesis
    unfolding e by (simp only: append.simps utf8_run.simps u s1 s2 s3 s4 prod.case)
qed

lemma utf8_run_code_point:
  assumes "cp < 0x110000" "\<not> (0xD800 \<le> cp \<and> cp \<le> 0xDFFF)"
  shows "utf8_run utf8_initial (utf8_of_code_point cp @ bs) = cp # utf8_run utf8_initial bs"
proof -
  consider "cp < 0x80" | "0x80 \<le> cp" "cp < 0x800" | "0x800 \<le> cp" "cp < 0x10000" | "0x10000 \<le> cp"
    by linarith
  then show ?thesis
    using assms by cases (simp_all add: utf8_run_1 utf8_run_2 utf8_run_3 utf8_run_4)
qed

lemma utf16_of_unit:
  "utf16_of_code_point (unat (c :: code_unit)) = [c]"
  using unat_unit_less [of c] by (simp add: utf16_of_code_point_def)

lemma pair_code_point_bounds:
  assumes "is_lead c" "is_trail d"
  shows "0x10000 \<le> pair_code_point c d" "pair_code_point c d < 0x110000"
proof -
  define h l where "h = unat c - 0xD800" and "l = unat d - 0xDC00"
  have "h \<le> 0x3FF" "l \<le> 0x3FF"
    using assms by (auto simp add: h_def l_def is_lead_unat is_trail_unat)
  moreover from this have "h * 0x400 \<le> 0x3FF * 0x400" by (simp only: mult_le_mono1)
  moreover have "pair_code_point c d = 0x10000 + h * 0x400 + l"
    by (simp add: pair_code_point_def h_def l_def)
  ultimately show "0x10000 \<le> pair_code_point c d" "pair_code_point c d < 0x110000"
    by simp_all
qed

lemma utf16_of_pair:
  assumes "is_lead c" "is_trail d"
  shows "utf16_of_code_point (pair_code_point c d) = [c, d]"
proof -
  define h l where "h = unat c - 0xD800" and "l = unat d - 0xDC00"
  have hl: "h < 0x400" "l < 0x400" "unat c = 0xD800 + h" "unat d = 0xDC00 + l"
    using assms by (auto simp add: h_def l_def is_lead_unat is_trail_unat)
  have p: "pair_code_point c d = 0x10000 + (h * 0x400 + l)"
    by (simp add: pair_code_point_def h_def l_def)
  have "(h * 0x400 + l) div 0x400 = h" "(h * 0x400 + l) mod 0x400 = l"
    using hl by simp_all
  then have "utf16_of_code_point (pair_code_point c d) = [of_nat (unat c), of_nat (unat d)]"
    unfolding p utf16_of_code_point_def using hl by (simp del: of_nat_add of_nat_numeral)
  then show ?thesis by simp
qed

lemma utf8_run_unit:
  assumes "\<not> is_lead c" "\<not> is_trail c"
  shows "utf8_run utf8_initial (utf8_of_code_point (unat c) @ bs) = unat c # utf8_run utf8_initial bs"
proof (rule utf8_run_code_point)
  show "unat c < 0x110000" using unat_unit_less [of c] by simp
  show "\<not> (0xD800 \<le> unat c \<and> unat c \<le> 0xDFFF)"
    using assms by (auto simp add: is_lead_unat is_trail_unat)
qed

lemma utf8_run_pair:
  assumes "is_lead c" "is_trail d"
  shows "utf8_run utf8_initial (utf8_of_code_point (pair_code_point c d) @ bs) =
           pair_code_point c d # utf8_run utf8_initial bs"
proof (rule utf8_run_code_point)
  show "pair_code_point c d < 0x110000" using pair_code_point_bounds [OF assms] by simp
  show "\<not> (0xD800 \<le> pair_code_point c d \<and> pair_code_point c d \<le> 0xDFFF)"
    using pair_code_point_bounds [OF assms] by simp
qed

lemma utf8_decode_encode_append:
  "well_formed s \<Longrightarrow>
   concat (map utf16_of_code_point (utf8_run utf8_initial (utf8_encode s @ bs))) =
     s @ concat (map utf16_of_code_point (utf8_run utf8_initial bs))"
proof (induction s rule: well_formed.induct)
  case 1
  show ?case by simp
next
  case (2 c)
  then show ?case by (simp add: utf8_run_unit utf16_of_unit)
next
  case (3 c d cs)
  show ?case
  proof (cases "is_lead c \<and> is_trail d")
    case True
    then show ?thesis
      using 3 by (simp add: utf8_run_pair utf16_of_pair)
  next
    case False
    from "3.prems" False have nc: "\<not> is_lead c" "\<not> is_trail c" and wf: "well_formed (d # cs)"
      by (simp_all split: if_splits)
    have e: "utf8_encode (c # d # cs) = utf8_of_code_point (unat c) @ utf8_encode (d # cs)"
      using nc by simp
    show ?thesis
      unfolding e using "3.IH"(2) [OF False wf] nc
      by (simp add: utf8_run_unit utf16_of_unit del: utf8_encode.simps)
  qed
qed

lemma utf8_decode_encode: "well_formed s \<Longrightarrow> utf8_decode (utf8_encode s) = s"
  using utf8_decode_encode_append [of s "[]"] by (simp add: utf8_decode_def utf8_initial_def)

section \<open>Well-formed strings\<close>

lemma well_formed_unit:
  "\<not> is_lead c \<Longrightarrow> \<not> is_trail c \<Longrightarrow> well_formed (c # s) = well_formed s"
  by (cases s) simp_all

lemma well_formed_pair:
  "is_lead c \<Longrightarrow> is_trail d \<Longrightarrow> well_formed (c # d # s) = well_formed s"
  by simp

lemma well_formed_append: "well_formed a \<Longrightarrow> well_formed b \<Longrightarrow> well_formed (a @ b)"
proof (induction a rule: well_formed.induct)
  case 1
  then show ?case by simp
next
  case (2 c)
  then show ?case by (simp add: well_formed_unit)
next
  case (3 c d cs)
  show ?case
  proof (cases "is_lead c \<and> is_trail d")
    case True
    then show ?thesis using 3 by simp
  next
    case False
    from "3.prems" False have nc: "\<not> is_lead c" "\<not> is_trail c" and wf: "well_formed (d # cs)"
      by (simp_all split: if_splits)
    have "well_formed ((d # cs) @ b)" using "3.IH"(2) [OF False wf "3.prems"(2)] .
    then show ?thesis using nc by (simp add: well_formed_unit del: well_formed.simps)
  qed
qed

lemma plain_not_surrogate: "plain c \<Longrightarrow> \<not> is_lead c \<and> \<not> is_trail c"
  by (auto simp add: plain_def is_lead_unat is_trail_unat word_less_nat_alt)

lemma well_formed_plain: "list_all plain s \<Longrightarrow> well_formed s"
  by (induction s) (simp_all add: well_formed_unit plain_not_surrogate)

section \<open>JSON strings: parsing what was quoted\<close>

lemma hex_digit_all: "list_all (\<lambda>n. hex_val (hex_digit n) = Some n \<and> plain (hex_digit n)) [0..<16]"
  by (simp add: upt_rec hex_digit_def str_def hex_val_def plain_def)

lemma hex_digit_cases: "n < 16 \<Longrightarrow> hex_val (hex_digit n) = Some n \<and> plain (hex_digit n)"
  using hex_digit_all unfolding list_all_iff by simp

lemma hex_positions: "((u div 4096 * 16 + u div 256 mod 16) * 16 + u div 16 mod 16) * 16 + u mod 16 = (u::nat)"
proof -
  have "u div 4096 = u div 256 div 16" "u div 256 = u div 16 div 16"
    by (simp_all add: div_mult2_eq)
  then have "u div 4096 * 16 + u div 256 mod 16 = u div 256"
      "u div 256 * 16 + u div 16 mod 16 = u div 16"
    by simp_all
  then show ?thesis by simp
qed

lemma hex4_unicode_escape:
  "hex4 (hex_digit (unat c div 4096)) (hex_digit (unat c div 256 mod 16))
        (hex_digit (unat c div 16 mod 16)) (hex_digit (unat c mod 16)) = Some c"
proof -
  have "unat c div 4096 < 16" using unat_unit_less [of c] by simp
  then have v: "hex_val (hex_digit (unat c div 4096)) = Some (unat c div 4096)"
      "hex_val (hex_digit (unat c div 256 mod 16)) = Some (unat c div 256 mod 16)"
      "hex_val (hex_digit (unat c div 16 mod 16)) = Some (unat c div 16 mod 16)"
      "hex_val (hex_digit (unat c mod 16)) = Some (unat c mod 16)"
    by (simp_all add: hex_digit_cases)
  show ?thesis
    unfolding hex4_def by (simp only: v prod.case option.case hex_positions) simp
qed

lemma parse_raw_unit:
  "c \<noteq> 0x22 \<Longrightarrow> c \<noteq> 0x5C \<Longrightarrow> \<not> c < 0x20 \<Longrightarrow>
   parse_string_body (c # tail) = map_option (apfst ((#) c)) (parse_string_body tail)"
  by simp

lemma surrogate_raw:
  "is_lead c \<or> is_trail c \<Longrightarrow> c \<noteq> 0x22 \<and> c \<noteq> 0x5C \<and> \<not> c < 0x20"
  by (auto simp add: is_lead_unat is_trail_unat word_less_nat_alt)

lemma parse_quote_unit:
  "parse_string_body (quote_unit c @ tail) = map_option (apfst ((#) c)) (parse_string_body tail)"
proof -
  consider "c = 0x08" | "c = 0x09" | "c = 0x0A" | "c = 0x0C" | "c = 0x0D" | "c = 0x22" | "c = 0x5C"
    | "c \<notin> {0x08, 0x09, 0x0A, 0x0C, 0x0D, 0x22, 0x5C}" "c < 0x20 \<or> is_lead c \<or> is_trail c"
    | "c \<notin> {0x08, 0x09, 0x0A, 0x0C, 0x0D, 0x22, 0x5C}" "\<not> (c < 0x20 \<or> is_lead c \<or> is_trail c)"
    by blast
  then show ?thesis
  proof cases
    case 8
    then have "quote_unit c = unicode_escape c" by (simp add: quote_unit_def)
    then show ?thesis
      by (simp add: unicode_escape_def hex4_unicode_escape)
  next
    case 9
    then have "quote_unit c = [c]" by (simp add: quote_unit_def)
    then show ?thesis using 9 by simp
  qed (simp_all add: quote_unit_def unescape_def)
qed

lemma parse_quote_units:
  "parse_string_body (quote_units s @ 0x22 # rest) = Some (s, rest)"
proof (induction s rule: quote_units.induct)
  case 1
  show ?case by simp
next
  case (2 c)
  show ?case by (simp add: parse_quote_unit del: parse_string_body.simps) simp
next
  case (3 c d cs)
  show ?case
  proof (cases "is_lead c \<and> is_trail d")
    case True
    then have "quote_units (c # d # cs) = c # d # quote_units cs" by simp
    then show ?thesis
      using True "3.IH"(1) [OF True] surrogate_raw [of c] surrogate_raw [of d]
      by (simp add: parse_raw_unit del: parse_string_body.simps quote_units.simps)
  next
    case False
    then have "quote_units (c # d # cs) = quote_unit c @ quote_units (d # cs)" by auto
    then show ?thesis
      using "3.IH"(2) [OF False]
      by (simp add: parse_quote_unit del: parse_string_body.simps quote_units.simps)
  qed
qed

lemma parse_QuoteJSONString:
  "parse_string_body (tl (QuoteJSONString s) @ rest) = Some (s, rest)"
  by (simp add: QuoteJSONString_def parse_quote_units del: parse_string_body.simps)

subsection \<open>What is quoted is well formed\<close>

lemma well_formed_unicode_escape: "well_formed (unicode_escape c)"
proof -
  have "unat c div 4096 < 16" using unat_unit_less [of c] by simp
  moreover have "plain 0x5C" "plain 0x75" by (simp_all add: plain_def)
  ultimately have "list_all plain (unicode_escape c)"
    by (simp add: unicode_escape_def hex_digit_cases)
  then show ?thesis by (rule well_formed_plain)
qed

lemma well_formed_quote_unit: "well_formed (quote_unit c)"
proof -
  have esc: "well_formed [0x5C, 0x62]" "well_formed [0x5C, 0x74]" "well_formed [0x5C, 0x6E]"
      "well_formed [0x5C, 0x66]" "well_formed [0x5C, 0x72]" "well_formed [0x5C, 0x22]"
      "well_formed [0x5C, 0x5C]"
    by (simp_all add: is_lead_def is_trail_def)
  show ?thesis
    unfolding quote_unit_def using esc well_formed_unicode_escape [of c]
    by (auto simp del: well_formed.simps) simp
qed

lemma well_formed_quote_units: "well_formed (quote_units s)"
proof (induction s rule: quote_units.induct)
  case 1
  show ?case by simp
next
  case (2 c)
  show ?case by (simp add: well_formed_quote_unit)
next
  case (3 c d cs)
  show ?case
  proof (cases "is_lead c \<and> is_trail d")
    case True
    then have "quote_units (c # d # cs) = c # d # quote_units cs" by simp
    then show ?thesis using True "3.IH"(1) [OF True] by (simp del: quote_units.simps)
  next
    case False
    then have "quote_units (c # d # cs) = quote_unit c @ quote_units (d # cs)" by auto
    then show ?thesis
      using "3.IH"(2) [OF False]
      by (simp add: well_formed_append well_formed_quote_unit del: quote_units.simps)
  qed
qed

lemma well_formed_QuoteJSONString: "well_formed (QuoteJSONString s)"
proof -
  have q: "well_formed [0x22]" by (simp add: is_lead_def is_trail_def)
  have "well_formed ([0x22] @ quote_units s @ [0x22])"
    by (intro well_formed_append q well_formed_quote_units)
  then show ?thesis by (simp add: QuoteJSONString_def)
qed

section \<open>JSON objects: parsing what was stringified\<close>

lemma skip_ws_quote [simp]: "skip_ws (0x22 # cs) = 0x22 # cs"
  and skip_ws_brace [simp]: "skip_ws (0x7B # cs) = 0x7B # cs"
  and skip_ws_close [simp]: "skip_ws (0x7D # cs) = 0x7D # cs"
  and skip_ws_colon [simp]: "skip_ws (0x3A # cs) = 0x3A # cs"
  and skip_ws_comma [simp]: "skip_ws (0x2C # cs) = 0x2C # cs"
  and skip_ws_Nil [simp]: "skip_ws [] = []"
  by (simp_all add: skip_ws_def json_ws_def)

lemma parse_value_string:
  "parse_value (Suc n) (QuoteJSONString s @ rest) = Some (JStr s, rest)"
  by (simp add: QuoteJSONString_def parse_quote_units del: parse_string_body.simps)

lemma parse_members_last:
  "parse_members (Suc (Suc n)) (QuoteJSONString k @ 0x3A # QuoteJSONString v @ 0x7D # rest)
     = Some ([(k, JStr v)], rest)"
proof -
  have "parse_string_body (quote_units k @ 0x22 # 0x3A # QuoteJSONString v @ 0x7D # rest)
          = Some (k, 0x3A # QuoteJSONString v @ 0x7D # rest)"
    by (rule parse_quote_units)
  then show ?thesis
    using parse_value_string [of n v "0x7D # rest"]
    by (simp add: QuoteJSONString_def del: parse_string_body.simps parse_value.simps)
qed

lemma parse_members_more:
  "parse_members (Suc (Suc n)) (QuoteJSONString k @ 0x3A # QuoteJSONString v @ 0x2C # tail_text)
     = map_option (apfst ((#) (k, JStr v))) (parse_members (Suc n) tail_text)"
proof -
  have "parse_string_body (quote_units k @ 0x22 # 0x3A # QuoteJSONString v @ 0x2C # tail_text)
          = Some (k, 0x3A # QuoteJSONString v @ 0x2C # tail_text)"
    by (rule parse_quote_units)
  then show ?thesis
    using parse_value_string [of n v "0x2C # tail_text"]
    by (simp add: QuoteJSONString_def del: parse_string_body.simps parse_value.simps
          parse_members.simps(2))
       (simp del: parse_string_body.simps parse_value.simps)
qed

lemma parse_value_object2:
  "parse_value (Suc (Suc (Suc (Suc n)))) (JSON_stringify [(k1, v1), (k2, v2)] @ rest)
     = Some (JObj [(k1, JStr v1), (k2, JStr v2)], rest)"
proof -
  let ?m2 = "QuoteJSONString k2 @ 0x3A # QuoteJSONString v2 @ 0x7D # rest"
  let ?m1 = "QuoteJSONString k1 @ 0x3A # QuoteJSONString v1 @ 0x2C # ?m2"
  have t: "JSON_stringify [(k1, v1), (k2, v2)] @ rest = 0x7B # ?m1"
    by (simp add: JSON_stringify_def)
  have q: "skip_ws ?m1 = 0x22 # tl ?m1" by (simp add: QuoteJSONString_def)
  have "parse_members (Suc (Suc (Suc n))) ?m1 = Some ([(k1, JStr v1), (k2, JStr v2)], rest)"
    by (simp only: parse_members_more parse_members_last) simp
  then show ?thesis
    unfolding t by (simp add: q del: parse_members.simps)
qed

lemma JSON_parse_stringify2:
  "JSON_parse (JSON_stringify [(k1, v1), (k2, v2)]) = Inr (JObj [(k1, JStr v1), (k2, JStr v2)])"
proof -
  let ?s = "JSON_stringify [(k1, v1), (k2, v2)]"
  have "1 \<le> length ?s" by (simp add: JSON_stringify_def)
  then have "2 * length ?s + 2 = Suc (Suc (Suc (Suc (2 * (length ?s - 1)))))"
    by simp
  then obtain n where n: "2 * length ?s + 2 = Suc (Suc (Suc (Suc n)))" ..
  show ?thesis
    unfolding JSON_parse_def n using parse_value_object2 [of n k1 v1 k2 v2 "[]"]
    by simp
qed

lemma well_formed_JSON_stringify2: "well_formed (JSON_stringify [(k1, v1), (k2, v2)])"
proof -
  have p: "well_formed [0x7B]" "well_formed [0x3A]" "well_formed [0x2C]" "well_formed [0x7D]"
    by (simp_all add: is_lead_def is_trail_def)
  have "well_formed ([0x7B] @ QuoteJSONString k1 @ [0x3A] @ QuoteJSONString v1 @ [0x2C]
          @ QuoteJSONString k2 @ [0x3A] @ QuoteJSONString v2 @ [0x7D])"
    by (intro well_formed_append p well_formed_QuoteJSONString)
  then show ?thesis by (simp add: JSON_stringify_def)
qed

section \<open>Base64: decoding what was encoded\<close>

lemma b64_char_all:
  "list_all (\<lambda>n. unbase64 (b64_char n) = Some n \<and> low_byte (b64_char n) \<noteq> 0x3D) [0..<64]"
  by (simp add: upt_rec b64_char_def str_def unbase64_def low_byte_def)

lemma b64_char_cases:
  "n < 64 \<Longrightarrow> unbase64 (b64_char n) = Some n \<and> low_byte (b64_char n) \<noteq> 0x3D"
  using b64_char_all unfolding list_all_iff by simp

lemma low_byte_pad: "low_byte 0x3D = 0x3D"
  by (simp add: low_byte_def)

lemma sextet_first: "b < 256 \<Longrightarrow> a div 4 * 4 + (a mod 4 * 16 + b div 16) div 16 = (a::nat)"
  by simp

lemma sextet_second:
  "b < 256 \<Longrightarrow> c < 256 \<Longrightarrow>
   (a mod 4 * 16 + b div 16) mod 16 * 16 + (b mod 16 * 4 + c div 64) div 4 = (b::nat)"
  by simp

lemma sextet_third: "c < 256 \<Longrightarrow> (b mod 16 * 4 + c div 64) mod 4 * 64 + c mod 64 = (c::nat)"
  by simp

lemma sextet_second_padded:
  "b < 256 \<Longrightarrow> (a mod 4 * 16 + b div 16) mod 16 * 16 + (b mod 16 * 4) div 4 = (b::nat)"
  by simp

lemma sextet_bounds:
  "a < 256 \<Longrightarrow> a div 4 < (64::nat)"
  "b < 256 \<Longrightarrow> a mod 4 * 16 + b div 16 < (64::nat)"
  "c < 256 \<Longrightarrow> b mod 16 * 4 + c div 64 < (64::nat)"
  "c mod 64 < (64::nat)"
  "a mod 4 * 16 < (64::nat)"
  "b mod 16 * 4 < (64::nat)"
  by arith+

lemma base64_decode_encode: "base64_decode (base64_encode bs) = bs"
proof (induction bs rule: base64_encode.induct)
  case 1
  show ?case by (simp add: base64_decode_def)
next
  case (2 a)
  show ?case
    using sextet_first [of 0 "unat a"]
    by (simp add: base64_decode_def b64_char_cases low_byte_pad sextet_bounds unat_byte_less)
next
  case (3 a b)
  show ?case
    using sextet_first [of "unat b" "unat a"] sextet_second_padded [of "unat b" "unat a"]
    by (simp add: base64_decode_def b64_char_cases low_byte_pad sextet_bounds unat_byte_less)
next
  case (4 a b c bs)
  have "base64_sextets (base64_encode (a # b # c # bs)) =
          unat a div 4 # (unat a mod 4 * 16 + unat b div 16)
          # (unat b mod 16 * 4 + unat c div 64) # unat c mod 64 # base64_sextets (base64_encode bs)"
    by (simp add: b64_char_cases sextet_bounds unat_byte_less)
  then show ?case
    using 4 sextet_first [of "unat b" "unat a"] sextet_second [of "unat b" "unat c" "unat a"]
      sextet_third [of "unat c" "unat b"]
    by (simp add: base64_decode_def unat_byte_less del: base64_encode.simps)
qed

text \<open>Only the low byte of a code unit is read.\<close>

lemma low_byte_idem: "low_byte (low_byte c) = low_byte c"
  unfolding low_byte_def by (rule and.right_idem)

lemma unbase64_low_byte: "unbase64 (low_byte c) = unbase64 c"
  by (simp only: unbase64_def low_byte_idem)

lemma base64_sextets_low_bytes: "base64_sextets (map low_byte s) = base64_sextets s"
  by (induction s) (simp_all add: low_byte_idem unbase64_low_byte split: option.split)

lemma base64_decode_low_bytes: "base64_decode (map low_byte s) = base64_decode s"
  by (simp add: base64_decode_def base64_sextets_low_bytes)

section \<open>The flow state: decoding what was encoded\<close>

lemma decodeState_string:
  "decodeState fromObject (Some (JStr s)) = JSON_parse (utf8_decode (base64_decode s))"
  by (simp add: decodeState_def Buffer_from_base64_def)

text \<open>
  A state and the state of its low bytes decode alike; a state that starts with a code
  unit read as \<open>=\<close> decodes to the empty text, which is not JSON.
\<close>

lemma decodeState_low_bytes:
  "decodeState fromObject (Some (JStr (map low_byte s))) = decodeState fromObject (Some (JStr s))"
  by (simp only: decodeState_string base64_decode_low_bytes)

lemma decodeState_stops_at_pad:
  "low_byte c = 0x3D \<Longrightarrow> decodeState fromObject (Some (JStr (c # s))) = Inl SyntaxError"
  by (simp add: decodeState_def Buffer_from_base64_def base64_decode_def utf8_decode_def
      utf8_initial_def JSON_parse_def skip_ws_def)

lemma decodeState_generateEncodedStateString:
  "decodeState fromObject (Some (JStr (generateEncodedStateString fresh route))) =
     Inr (JObj [(str ''route'', JStr (route_or_root route)), (str ''nonce'', JStr fresh)])"
  by (simp add: decodeState_string generateEncodedStateString_def base64_decode_encode
        utf8_decode_encode well_formed_JSON_stringify2 JSON_parse_stringify2)

lemma route_of_state:
  "get_property (JObj [(str ''route'', r), (str ''nonce'', n)]) (str ''route'') = Inr (Some r)"
  by (simp add: str_def)


section \<open>URI components and cookies\<close>

lemma upper_hex_digit_all: "list_all (\<lambda>n. uri_unreserved (upper_hex_digit n)) [0..<16]"
  by (simp add: upt_rec upper_hex_digit_def str_def uri_unreserved_def)

lemma upper_hex_digit_unreserved: "n < 16 \<Longrightarrow> uri_unreserved (upper_hex_digit n)"
  using upper_hex_digit_all unfolding list_all_iff by simp

lemma uri_char_unreserved: "uri_unreserved c \<Longrightarrow> uri_char c"
  by (simp add: uri_char_def)

lemma uri_char_percent_encode_byte: "list_all uri_char (percent_encode_byte b)"
proof -
  have "unat b div 16 < 16" using unat_byte_less [of b] by simp
  then show ?thesis
    by (simp add: percent_encode_byte_def uri_char_def upper_hex_digit_unreserved)
qed

lemma uri_char_percent_encode_code_point: "list_all uri_char (percent_encode_code_point cp)"
  by (simp add: percent_encode_code_point_def list_all_iff)
     (metis uri_char_percent_encode_byte list_all_iff)

lemma encodeURIComponent_well_formed:
  "well_formed s \<Longrightarrow> \<exists>v. encodeURIComponent s = Inr v \<and> list_all uri_char v"
proof (induction s rule: well_formed.induct)
  case 1
  show ?case by simp
next
  case (2 c)
  then show ?case
    by (simp add: uri_char_percent_encode_code_point uri_char_unreserved)
next
  case (3 c d cs)
  show ?case
  proof (cases "is_lead c \<and> is_trail d")
    case True
    then have wf: "well_formed cs" using "3.prems" by simp
    obtain v where v: "encodeURIComponent cs = Inr v" "list_all uri_char v"
      using "3.IH"(1) [OF True wf] by blast
    have nu: "\<not> uri_unreserved c"
      using True by (auto simp add: uri_unreserved_def is_lead_unat word_le_nat_alt word_unat_eq_iff)
    have nt: "\<not> is_trail c"
      using True by (auto simp add: is_lead_unat is_trail_unat)
    show ?thesis
      using True v nu nt by (simp add: uri_char_percent_encode_code_point)
  next
    case False
    from "3.prems" False have nc: "\<not> is_lead c" "\<not> is_trail c" and wf: "well_formed (d # cs)"
      by (simp_all split: if_splits)
    obtain v where v: "encodeURIComponent (d # cs) = Inr v" "list_all uri_char v"
      using "3.IH"(2) [OF False wf] by blast
    show ?thesis
      using v nc
      by (simp add: uri_char_percent_encode_code_point uri_char_unreserved)
  qed
qed

lemma uri_char_field_content: "list_all uri_char v \<Longrightarrow> v \<noteq> [] \<Longrightarrow> field_content v"
  unfolding field_content_def list_all_iff uri_char_def uri_unreserved_def
  by (auto simp add: word_le_nat_alt word_unat_eq_iff)

lemma number_to_string_values:
  "number_to_string 0 = str ''0''"
  "number_to_string LOGIN_COOKIE_MAX_AGE = str ''1800000''"
  "number_to_string NETLIFY_JWT_EXPIRATION_SECONDS = str ''1209600''"
  by (simp_all add: number_to_string_def decimal.simps str_def LOGIN_COOKIE_MAX_AGE_def
        NETLIFY_JWT_EXPIRATION_SECONDS_def)

lemma field_content_names:
  "field_content CROSSID_LOGIN_COOKIE_NAME" "field_content NETLIFY_COOKIE_NAME"
  "field_content (str ''/'')"
  by (simp_all add: field_content_def CROSSID_LOGIN_COOKIE_NAME_def NETLIFY_COOKIE_NAME_def str_def)

lemma cookie_serialize_root_path:
  assumes "field_content name" "encodeURIComponent val = Inr v" "list_all uri_char v"
  shows "cookie_serialize name val \<lparr> secure = s, path = str ''/'', maxAge = m, httpOnly = h \<rparr> =
           Inr (name @ [0x3D] @ v @ str ''; Max-Age='' @ number_to_string (max_age_number m)
                @ str ''; Path=/''
                @ (if h = Some True then str ''; HttpOnly'' else [])
                @ (if s then str ''; Secure'' else []))"
proof -
  have "v = [] \<or> field_content v" using assms(3) uri_char_field_content by blast
  moreover have "str ''; Path='' @ str ''/'' = str ''; Path=/''" by (simp add: str_def)
  moreover have "str ''/'' \<noteq> []" by (simp add: str_def)
  ultimately show ?thesis
    using assms(1,2) field_content_names(3) by (auto simp add: cookie_serialize_def)
qed

lemma generateLogoutCookie_eq:
  "generateLogoutCookie e =
     Inr (str ''nf_jwt=; Max-Age=0; Path=/; HttpOnly''
          @ (if isRunningLocally e then [] else str ''; Secure''))"
proof -
  have "cookie_serialize NETLIFY_COOKIE_NAME []
          \<lparr> secure = \<not> isRunningLocally e, path = str ''/'', maxAge = MaxAgeDate 0,
            httpOnly = Some True \<rparr> =
        Inr (NETLIFY_COOKIE_NAME @ [0x3D] @ [] @ str ''; Max-Age='' @ number_to_string (max_age_number (MaxAgeDate 0))
                @ str ''; Path=/''
                @ (if Some True = Some True then str ''; HttpOnly'' else [])
                @ (if \<not> isRunningLocally e then str ''; Secure'' else []))"
    by (rule cookie_serialize_root_path) (simp_all add: field_content_names)
  then show ?thesis
    by (simp add: generateLogoutCookie_def number_to_string_values NETLIFY_COOKIE_NAME_def str_def)
qed

lemma generateCrossIdLoginResetCookie_eq:
  "generateCrossIdLoginResetCookie e =
     Inr (str ''crossid_login_cookie=; Max-Age=0; Path=/; HttpOnly''
          @ (if isRunningLocally e then [] else str ''; Secure''))"
proof -
  have "cookie_serialize CROSSID_LOGIN_COOKIE_NAME []
          \<lparr> secure = \<not> isRunningLocally e, path = str ''/'', maxAge = MaxAgeDate 0,
            httpOnly = Some True \<rparr> =
        Inr (CROSSID_LOGIN_COOKIE_NAME @ [0x3D] @ [] @ str ''; Max-Age='' @ number_to_string (max_age_number (MaxAgeDate 0))
                @ str ''; Path=/''
                @ (if Some True = Some True then str ''; HttpOnly'' else [])
                @ (if \<not> isRunningLocally e then str ''; Secure'' else []))"
    by (rule cookie_serialize_root_path) (simp_all add: field_content_names)
  then show ?thesis
    by (simp add: generateCrossIdLoginResetCookie_def number_to_string_values
          CROSSID_LOGIN_COOKIE_NAME_def str_def)
qed

lemma login_cookie_value_encodes:
  "\<exists>v. encodeURIComponent (JSON_stringify [(str ''nonce'', n), (str ''state'', s)]) = Inr v
       \<and> list_all uri_char v"
  by (rule encodeURIComponent_well_formed) (rule well_formed_JSON_stringify2)

lemma generateCrossIdLoginCookie_eq:
  assumes "encodeURIComponent (JSON_stringify [(str ''nonce'', n), (str ''state'', s)]) = Inr v"
  shows "generateCrossIdLoginCookie e n s =
           Inr (str ''crossid_login_cookie='' @ v @ str ''; Max-Age=1800000; Path=/; HttpOnly''
                @ (if isRunningLocally e then [] else str ''; Secure''))"
proof -
  have u: "list_all uri_char v" using login_cookie_value_encodes [of n s] assms by auto
  have "cookie_serialize CROSSID_LOGIN_COOKIE_NAME
          (JSON_stringify [(str ''nonce'', n), (str ''state'', s)])
          \<lparr> secure = \<not> isRunningLocally e, path = str ''/'',
            maxAge = MaxAgeNumber LOGIN_COOKIE_MAX_AGE, httpOnly = Some True \<rparr> =
        Inr (CROSSID_LOGIN_COOKIE_NAME @ [0x3D] @ v @ str ''; Max-Age=''
                @ number_to_string (max_age_number (MaxAgeNumber LOGIN_COOKIE_MAX_AGE))
                @ str ''; Path=/''
                @ (if Some True = Some True then str ''; HttpOnly'' else [])
                @ (if \<not> isRunningLocally e then str ''; Secure'' else []))"
    by (rule cookie_serialize_root_path) (simp_all add: field_content_names assms u)
  then show ?thesis
    by (simp add: generateCrossIdLoginCookie_def number_to_string_values
          CROSSID_LOGIN_COOKIE_NAME_def str_def)
qed

lemma session_cookie_eq:
  assumes "encodeURIComponent token = Inr v" "well_formed token"
  shows "cookie_serialize NETLIFY_COOKIE_NAME token
           \<lparr> secure = \<not> isRunningLocally e, path = str ''/'',
             maxAge = MaxAgeNumber NETLIFY_JWT_EXPIRATION_SECONDS, httpOnly = None \<rparr> =
         Inr (str ''nf_jwt='' @ v @ str ''; Max-Age=1209600; Path=/''
              @ (if isRunningLocally e then [] else str ''; Secure''))"
proof -
  have u: "list_all uri_char v" using encodeURIComponent_well_formed [OF assms(2)] assms(1) by auto
  have "cookie_serialize NETLIFY_COOKIE_NAME token
           \<lparr> secure = \<not> isRunningLocally e, path = str ''/'',
             maxAge = MaxAgeNumber NETLIFY_JWT_EXPIRATION_SECONDS, httpOnly = None \<rparr> =
        Inr (NETLIFY_COOKIE_NAME @ [0x3D] @ v @ str ''; Max-Age=''
                @ number_to_string (max_age_number (MaxAgeNumber NETLIFY_JWT_EXPIRATION_SECONDS))
                @ str ''; Path=/''
                @ (if (None :: bool option) = Some True then str ''; HttpOnly'' else [])
                @ (if \<not> isRunningLocally e then str ''; Secure'' else []))"
    by (rule cookie_serialize_root_path) (simp_all add: field_content_names assms u)
  then show ?thesis
    by (simp add: number_to_string_values NETLIFY_COOKIE_NAME_def str_def)
qed

section \<open>Outcomes\<close>

lemma and_then_Inl [simp]: "and_then (Inl err, l) f = (Inl err, l)"
  by (simp add: and_then_def)

lemma and_then_Inr [simp]: "and_then (Inr x, l) f = (fst (f x), l @ snd (f x))"
  by (simp add: and_then_def split: prod.splits)

lemma and_then_fails: "fst m = Inl err \<Longrightarrow> fst (and_then m f) = Inl err"
  by (cases m) (simp add: and_then_def)

lemma and_then_fails_later:
  "(\<And>x. \<exists>err. fst (f x) = Inl err) \<Longrightarrow> \<exists>err. fst (and_then m f) = Inl err"
proof -
  assume f: "\<And>x. \<exists>err. fst (f x) = Inl err"
  obtain r l where m: "m = (r, l)" by (cases m)
  show ?thesis
  proof (cases r)
    case (Inl a)
    then show ?thesis using m by simp
  next
    case (Inr x)
    then show ?thesis using m f [of x] by simp
  qed
qed

text \<open>Unfolding the parser at a numeral bound.\<close>

lemmas parse_value_numeral =
  parse_value.simps(2) [of "pred_numeral k" cs, folded numeral_eq_Suc] for k cs

lemmas parse_elements_numeral =
  parse_elements.simps(2) [of "pred_numeral k" cs, folded numeral_eq_Suc] for k cs

lemmas parse_members_numeral =
  parse_members.simps(2) [of "pred_numeral k" cs, folded numeral_eq_Suc] for k cs

lemmas parse_numeral = parse_value_numeral parse_elements_numeral parse_members_numeral

lemma JSON_parse_undefined: "JSON_parse (to_string None) = Inl SyntaxError"
  by (simp add: JSON_parse_def to_string_def str_def parse_numeral skip_ws_def json_ws_def
        is_digit_def parse_literal_def)

section \<open>The handlers\<close>

lemma getOpenIDClient_eq:
  "getOpenIDClient co e =
     (case discover co (str ''https://'' @ to_string (CROSSID_DOMAIN e)) of
        Inl err \<Rightarrow> (Inl err, [Discover (str ''https://'' @ to_string (CROSSID_DOMAIN e))])
      | Inr issuer \<Rightarrow>
          (newClient co issuer
             \<lparr> client_id = CROSSID_CLIENT_ID e,
               redirect_uris = [callback_uri e],
               response_types = [str ''id_token''] \<rparr>,
           [Discover (str ''https://'' @ to_string (CROSSID_DOMAIN e)), NewClient]))"
  by (simp add: getOpenIDClient_def called_def Let_def split: sum.splits)

lemma handleCallback_invalid:
  "handleCallback co e None = (Inl (Error ''Invalid request''), [])"
  "handleCallback co e (Some \<lparr> event.headers = None, body = b \<rparr>)
     = (Inl (Error ''Invalid request''), [])"
  "handleCallback co e
     (Some \<lparr> event.headers = Some \<lparr> referer = r, cookie = None, host = h \<rparr>, body = b \<rparr>)
     = (Inl (Error ''Invalid request''), [])"
  "handleCallback co e
     (Some \<lparr> event.headers = Some \<lparr> referer = r, cookie = Some [], host = h \<rparr>, body = b \<rparr>)
     = (Inl (Error ''Invalid request''), [])"
  by (simp_all add: handleCallback_def throw_def)

lemma handleCallback_without_login_cookie:
  assumes "map_of (cookie_parse ck) CROSSID_LOGIN_COOKIE_NAME = None"
  shows "\<exists>err. fst (handleCallback co e
           (Some \<lparr> event.headers = Some \<lparr> referer = r, cookie = Some ck, host = h \<rparr>, body = b \<rparr>))
          = Inl err"
proof (cases "ck = []")
  case True
  then show ?thesis by (simp add: handleCallback_invalid)
next
  case False
  then show ?thesis
    using assms
    by (simp add: handleCallback_def Let_def)
       (rule and_then_fails_later, simp add: JSON_parse_undefined lift_def)
qed

lemma handleLogin_success:
  assumes "handleLogin co e ev = (Inr resp, calls)"
  shows "\<exists>event hs client url v.
           ev = Some event \<and> event.headers event = Some hs
         \<and> fst (getOpenIDClient co e) = Inr client
         \<and> authorizationUrl co client
              \<lparr> scope = str ''openid email profile'',
                response_mode = str ''form_post'',
                nonce = generators_nonce co 0,
                state = generateEncodedStateString (generators_nonce co 1) (referer hs) \<rparr>
             = Inr url
         \<and> encodeURIComponent
              (JSON_stringify
                 [(str ''nonce'', generators_nonce co 0),
                  (str ''state'', generateEncodedStateString (generators_nonce co 1) (referer hs))])
             = Inr v
         \<and> resp =
             \<lparr> statusCode = 302,
               headers =
                 [(''Location'', Some (JStr url)),
                  (''Cache-Control'', Some (JStr (str ''no-cache''))),
                  (''Set-Cookie'',
                   Some (JStr (str ''crossid_login_cookie='' @ v
                               @ str ''; Max-Age=1800000; Path=/; HttpOnly''
                               @ (if isRunningLocally e then [] else str ''; Secure''))))],
               multiValueHeaders = [] \<rparr>
         \<and> calls = snd (getOpenIDClient co e) @ [AuthorizationUrl]"
proof -
  from assms obtain event where ev: "ev = Some event"
    by (cases ev) (simp_all add: handleLogin_def throw_def)
  from assms ev obtain hs where hs: "event.headers event = Some hs"
    by (cases "event.headers event") (simp_all add: handleLogin_def throw_def)
  let ?n = "generators_nonce co 0"
  let ?s = "generateEncodedStateString (generators_nonce co 1) (referer hs)"
  obtain v where v: "encodeURIComponent (JSON_stringify [(str ''nonce'', ?n), (str ''state'', ?s)]) = Inr v"
    using login_cookie_value_encodes [of ?n ?s] by blast
  note ck = generateCrossIdLoginCookie_eq [OF v, of e]
  obtain r l where g: "getOpenIDClient co e = (r, l)" by (cases "getOpenIDClient co e")
  from assms ev hs g obtain client where client: "r = Inr client"
    by (cases r) (simp_all add: handleLogin_def)
  let ?p = "\<lparr> scope = str ''openid email profile'', response_mode = str ''form_post'',
              nonce = ?n, state = ?s \<rparr>"
  from assms ev hs g client obtain url where url: "authorizationUrl co client ?p = Inr url"
    by (cases "authorizationUrl co client ?p")
       (simp_all add: handleLogin_def Let_def called_def)
  show ?thesis
    using assms ev hs g client url v ck
    by (simp add: handleLogin_def Let_def called_def lift_def ret_def)
qed

lemma handleCallback_success:
  assumes hs: "event.headers event = Some hs"
    and ck: "cookie hs = Some ck" "ck \<noteq> []"
    and client: "getOpenIDClient co e = (Inr client, l)"
    and parsed: "JSON_parse (to_string (map_of (cookie_parse ck) CROSSID_LOGIN_COOKIE_NAME)) = Inr parsed"
    and nv: "get_property parsed (str ''nonce'') = Inr nv"
    and sv: "get_property parsed (str ''state'') = Inr sv"
    and params: "callbackParams co client
                   \<lparr> request_method = str ''POST'', body = event.body event, url = host hs \<rparr>
                 = Inr params"
    and verified: "callback co client (callback_uri e) params \<lparr> nonce = nv, state = sv \<rparr> = Inr tokenSet"
    and claims: "claims co tokenSet = Inr td"
    and signed: "generateNetlifyJWT (sign co) (TOKEN_SECRET e) (Date_now co) td = Inr token"
    and token: "well_formed token"
    and decoded: "decodeState (bufferFromObject co) sv = Inr decodedState"
    and route: "get_property decodedState (str ''route'') = Inr route"
  shows "\<exists>v. encodeURIComponent token = Inr v
           \<and> handleCallback co e (Some event) =
               (Inr \<lparr> statusCode = 302,
                      headers = [(''Location'', route),
                                 (''Cache-Control'', Some (JStr (str ''no-cache'')))],
                      multiValueHeaders =
                        [(''Set-Cookie'',
                          [str ''nf_jwt='' @ v @ str ''; Max-Age=1209600; Path=/''
                             @ (if isRunningLocally e then [] else str ''; Secure''),
                           str ''crossid_login_cookie=; Max-Age=0; Path=/; HttpOnly''
                             @ (if isRunningLocally e then [] else str ''; Secure'')])] \<rparr>,
                l @ [CallbackParams, Callback, Claims, Sign])"
proof -
  obtain v where v: "encodeURIComponent token = Inr v"
    using encodeURIComponent_well_formed [OF token] by blast
  note session = session_cookie_eq [OF v token, of e]
  have "handleCallback co e (Some event) =
               (Inr \<lparr> statusCode = 302,
                      headers = [(''Location'', route),
                                 (''Cache-Control'', Some (JStr (str ''no-cache'')))],
                      multiValueHeaders =
                        [(''Set-Cookie'',
                          [str ''nf_jwt='' @ v @ str ''; Max-Age=1209600; Path=/''
                             @ (if isRunningLocally e then [] else str ''; Secure''),
                           str ''crossid_login_cookie=; Max-Age=0; Path=/; HttpOnly''
                             @ (if isRunningLocally e then [] else str ''; Secure'')])] \<rparr>,
                l @ [CallbackParams, Callback, Claims, Sign])"
    using assms session
    by (simp add: handleCallback_def Let_def called_def lift_def ret_def
          generateNetlifyCookieFromCrossIdToken_def generateNetlifyJWT_called_def
          generateCrossIdLoginResetCookie_eq)
  then show ?thesis using v by blast
qed

lemma handleLogout_eq:
  assumes "encodeURIComponent (to_string (URL e)) = Inr v"
  shows "handleLogout e ev =
           (Inr \<lparr> statusCode = 302,
                  headers =
                    [(''Location'',
                      Some (JStr (str ''https://'' @ to_string (CROSSID_DOMAIN e)
                                  @ str ''/v2/logout?returnTo='' @ v
                                  @ str ''&client_id='' @ to_string (CROSSID_CLIENT_ID e)))),
                     (''Cache-Control'', Some (JStr (str ''no-cache''))),
                     (''Set-Cookie'',
                      Some (JStr (str ''nf_jwt=; Max-Age=0; Path=/; HttpOnly''
                                  @ (if isRunningLocally e then [] else str ''; Secure''))))],
                  multiValueHeaders = [] \<rparr>,
            [])"
proof -
  have "generateCrossIdLogoutUrl e =
          Inr (str ''https://'' @ to_string (CROSSID_DOMAIN e) @ str ''/v2/logout?returnTo='' @ v
               @ str ''&client_id='' @ to_string (CROSSID_CLIENT_ID e))"
    using assms by (simp add: generateCrossIdLogoutUrl_def Let_def str_def)
  then show ?thesis
    by (simp add: handleLogout_def lift_def ret_def generateLogoutCookie_eq)
qed

lemma encodeURIComponent_uri_char:
  "encodeURIComponent s = Inr v \<Longrightarrow> list_all uri_char v"
proof (induction s arbitrary: v rule: encodeURIComponent.induct)
  case 1
  then show ?case by simp
next
  case (2 c cs)
  show ?case
  proof (cases "uri_unreserved c")
    case True
    with "2.prems" obtain w where w: "encodeURIComponent cs = Inr w" "v = c # w"
      by (cases "encodeURIComponent cs") auto
    then show ?thesis using "2.IH"(1) [OF True w(1)] True by (simp add: uri_char_unreserved)
  next
    case nu: False
    show ?thesis
    proof (cases "is_trail c")
      case True
      then show ?thesis using "2.prems" nu by simp
    next
      case nt: False
      show ?thesis
      proof (cases "is_lead c")
        case True
        with "2.prems" nu nt obtain d ds where cs: "cs = d # ds" and d: "is_trail d"
          by (cases cs) (auto split: if_splits)
        with "2.prems" nu nt True obtain w where
          w: "encodeURIComponent ds = Inr w" "v = percent_encode_code_point (pair_code_point c d) @ w"
          by (cases "encodeURIComponent ds") auto
        show ?thesis
          using "2.IH"(2) [OF nu nt True cs d w(1)] w(2)
          by (simp add: uri_char_percent_encode_code_point)
      next
        case False
        with "2.prems" nu nt obtain w where
          w: "encodeURIComponent cs = Inr w" "v = percent_encode_code_point (unat c) @ w"
          by (cases "encodeURIComponent cs") auto
        show ?thesis
          using "2.IH"(3) [OF nu nt False w(1)] w(2)
          by (simp add: uri_char_percent_encode_code_point)
      qed
    qed
  qed
qed

lemma cookie_serialize_Inr:
  assumes "cookie_serialize name val \<lparr> secure = s, path = str ''/'', maxAge = m, httpOnly = h \<rparr> = Inr c"
  shows "\<exists>v. encodeURIComponent val = Inr v \<and> list_all uri_char v
           \<and> c = name @ [0x3D] @ v @ str ''; Max-Age='' @ number_to_string (max_age_number m)
                  @ str ''; Path=/''
                  @ (if h = Some True then str ''; HttpOnly'' else [])
                  @ (if s then str ''; Secure'' else [])"
proof -
  from assms have n: "field_content name"
    by (simp add: cookie_serialize_def split: if_splits)
  from assms n obtain v where v: "encodeURIComponent val = Inr v"
    by (cases "encodeURIComponent val") (simp_all add: cookie_serialize_def)
  have u: "list_all uri_char v" using v by (rule encodeURIComponent_uri_char)
  show ?thesis
    using assms cookie_serialize_root_path [OF n v u, of s m h] v u by simp
qed

lemma session_cookie_Inr:
  assumes "fst (generateNetlifyCookieFromCrossIdToken co e td) = Inr c"
  shows "\<exists>v. list_all uri_char v
           \<and> c = str ''nf_jwt='' @ v @ str ''; Max-Age=1209600; Path=/''
                  @ (if isRunningLocally e then [] else str ''; Secure'')"
proof -
  let ?t = "generateNetlifyJWT (sign co) (TOKEN_SECRET e) (Date_now co) td"
  from assms obtain token where t: "?t = Inr token"
    by (cases ?t)
       (simp_all add: generateNetlifyCookieFromCrossIdToken_def generateNetlifyJWT_called_def
          called_def)
  with assms have "cookie_serialize NETLIFY_COOKIE_NAME token
           \<lparr> secure = \<not> isRunningLocally e, path = str ''/'',
             maxAge = MaxAgeNumber NETLIFY_JWT_EXPIRATION_SECONDS, httpOnly = None \<rparr> = Inr c"
    by (simp add: generateNetlifyCookieFromCrossIdToken_def generateNetlifyJWT_called_def
          called_def lift_def)
  from cookie_serialize_Inr [OF this] show ?thesis
    by (auto simp add: number_to_string_values NETLIFY_COOKIE_NAME_def str_def)
qed

section \<open>Evaluating the examples\<close>

lemmas cookie_parse_eval =
  cookie_parse_def cookie_pairs_def cookie_pair_def trim_def js_whitespace_def tryDecode_def
  decodeURIComponent_def hex_val_def is_cont_def utf16_of_code_point_def List.map_filter_def
  CROSSID_LOGIN_COOKIE_NAME_def str_def

lemmas JSON_parse_eval =
  JSON_parse_def parse_numeral skip_ws_def json_ws_def is_digit_def parse_literal_def
  unescape_def hex4_def hex_val_def str_def

lemmas decodeState_eval =
  decodeState_def Buffer_from_base64_def base64_decode_def unbase64_def low_byte_def
  utf8_decode_def
  utf8_step_def utf8_lead_def utf8_initial_def utf16_of_code_point_def

lemma example_client:
  "getOpenIDClient example_provider example_env
     = (Inr (), [Discover (str ''https://idp.example''), NewClient])"
  by (simp add: getOpenIDClient_eq example_provider_def example_env_def to_string_def str_def)

lemma example_provider_calls:
  "callbackParams example_provider c \<lparr> request_method = m, body = Some posted, url = u \<rparr>
     = Inr posted"
  "callback example_provider c uri (str ''id_token=t&state='' @ st)
     \<lparr> nonce = Some (JStr (str ''n0'')), state = Some (JStr st) \<rparr> = Inr ()"
  "claims example_provider t =
     Inr \<lparr> tokenData.aud = Some (JStr (str ''A'')), tokenData.sub = Some (JStr (str ''S'')),
           groups = Some (JArr [JStr (str ''g1''), JStr (str ''g2'')]) \<rparr>"
  "bufferFromObject example_provider = (\<lambda>v. Inl TypeError)"
  "generators_nonce example_provider k = (if k = 0 then str ''n0'' else str ''n1'')"
  "authorizationUrl example_provider c p =
     Inr (str ''https://idp.example/authorize?nonce='' @ authorization_parameters.nonce p
          @ str ''&state='' @ authorization_parameters.state p)"
  by (simp_all add: example_provider_def str_def)

lemma example_token:
  "generateNetlifyJWT (sign example_provider) (TOKEN_SECRET example_env)
     (Date_now example_provider) td = Inr (str ''h.p.s'')"
  "well_formed (str ''h.p.s'')"
  "encodeURIComponent (str ''h.p.s'') = Inr (str ''h.p.s'')"
  by (simp_all add: generateNetlifyJWT_def example_provider_def str_def is_lead_def is_trail_def
        uri_unreserved_def)

lemma dashboard_cookie_parsed:
  "JSON_parse (to_string (map_of (cookie_parse dashboard_cookie) CROSSID_LOGIN_COOKIE_NAME))
     = Inr (JObj [(str ''nonce'', JStr (str ''n0'')),
                  (str ''state'', JStr (str ''eyJyb3V0ZSI6Ii9kYXNoYm9hcmQiLCJub25jZSI6Im4xIn0=''))])"
proof -
  have "map_of (cookie_parse dashboard_cookie) CROSSID_LOGIN_COOKIE_NAME
          = Some (str ''{\"nonce\":\"n0\",\"state\":\"eyJyb3V0ZSI6Ii9kYXNoYm9hcmQiLCJub25jZSI6Im4xIn0=\"}'')"
    by (simp add: dashboard_cookie_def cookie_parse_eval)
  then show ?thesis
    by (simp add: to_string_def) (simp add: JSON_parse_eval)
qed

lemma dashboard_state_decoded:
  "decodeState f (Some (JStr (str ''eyJyb3V0ZSI6Ii9kYXNoYm9hcmQiLCJub25jZSI6Im4xIn0='')))
     = Inr (JObj [(str ''route'', JStr (str ''/dashboard'')), (str ''nonce'', JStr (str ''n1''))])"
  by (simp add: decodeState_eval JSON_parse_eval)

lemma undecodable_state_cookie_parsed:
  "JSON_parse (to_string (map_of (cookie_parse undecodable_state_cookie) CROSSID_LOGIN_COOKIE_NAME))
     = Inr (JObj [(str ''nonce'', JStr (str ''n0'')), (str ''state'', JStr (str ''x''))])"
proof -
  have "map_of (cookie_parse undecodable_state_cookie) CROSSID_LOGIN_COOKIE_NAME
          = Some (str ''{\"nonce\":\"n0\",\"state\":\"x\"}'')"
    by (simp add: undecodable_state_cookie_def cookie_parse_eval)
  then show ?thesis
    by (simp add: to_string_def) (simp add: JSON_parse_eval)
qed

lemma undecodable_state: "decodeState f (Some (JStr (str ''x''))) = Inl SyntaxError"
  by (simp add: decodeState_eval JSON_parse_eval)

lemma handleCallback_undecodable_state:
  assumes hs: "event.headers event = Some hs"
    and ck: "cookie hs = Some ck" "ck \<noteq> []"
    and client: "getOpenIDClient co e = (Inr client, l)"
    and parsed: "JSON_parse (to_string (map_of (cookie_parse ck) CROSSID_LOGIN_COOKIE_NAME)) = Inr parsed"
    and nv: "get_property parsed (str ''nonce'') = Inr nv"
    and sv: "get_property parsed (str ''state'') = Inr sv"
    and params: "callbackParams co client
                   \<lparr> request_method = str ''POST'', body = event.body event, url = host hs \<rparr>
                 = Inr params"
    and verified: "callback co client (callback_uri e) params \<lparr> nonce = nv, state = sv \<rparr> = Inr tokenSet"
    and claims: "claims co tokenSet = Inr td"
    and signed: "generateNetlifyJWT (sign co) (TOKEN_SECRET e) (Date_now co) td = Inr token"
    and token: "well_formed token"
    and decoded: "decodeState (bufferFromObject co) sv = Inl err"
  shows "handleCallback co e (Some event) = (Inl err, l @ [CallbackParams, Callback, Claims, Sign])"
proof -
  obtain v where v: "encodeURIComponent token = Inr v"
    using encodeURIComponent_well_formed [OF token] by blast
  note session = session_cookie_eq [OF v token, of e]
  show ?thesis
    using assms session
    by (simp add: handleCallback_def Let_def called_def lift_def ret_def
          generateNetlifyCookieFromCrossIdToken_def generateNetlifyJWT_called_def
          generateCrossIdLoginResetCookie_eq)
qed

lemma empty_route_cookie_parsed:
  "JSON_parse (to_string (map_of (cookie_parse empty_route_cookie) CROSSID_LOGIN_COOKIE_NAME))
     = Inr (JObj [(str ''nonce'', JStr (str ''n0'')),
                  (str ''state'', JStr (str ''eyJyb3V0ZSI6IiIsIm5vbmNlIjoieCJ9''))])"
proof -
  have "map_of (cookie_parse empty_route_cookie) CROSSID_LOGIN_COOKIE_NAME
          = Some (str ''{\"nonce\":\"n0\",\"state\":\"eyJyb3V0ZSI6IiIsIm5vbmNlIjoieCJ9\"}'')"
    by (simp add: empty_route_cookie_def cookie_parse_eval)
  then show ?thesis
    by (simp add: to_string_def) (simp add: JSON_parse_eval)
qed

lemma empty_route_state_decoded:
  "decodeState f (Some (JStr (str ''eyJyb3V0ZSI6IiIsIm5vbmNlIjoieCJ9'')))
   = Inr (JObj [(str ''route'', JStr []), (str ''nonce'', JStr (str ''x''))])"
  by (simp add: decodeState_eval JSON_parse_eval)

lemmas encode_state_eval =
  generateEncodedStateString_def route_or_root_def JSON_stringify_def QuoteJSONString_def
  quote_unit_def is_lead_def is_trail_def utf8_of_code_point_def b64_char_def str_def

lemma root_state_encoded:
  "generateEncodedStateString (str ''n1'') None = str ''eyJyb3V0ZSI6Ii8iLCJub25jZSI6Im4xIn0=''"
  by (simp add: encode_state_eval)

lemma root_route_cookie_parsed:
  "JSON_parse (to_string (map_of (cookie_parse root_route_cookie) CROSSID_LOGIN_COOKIE_NAME))
     = Inr (JObj [(str ''nonce'', JStr (str ''n0'')),
                  (str ''state'', JStr (generateEncodedStateString (str ''n1'') None))])"
proof -
  have "map_of (cookie_parse root_route_cookie) CROSSID_LOGIN_COOKIE_NAME
          = Some (str ''{\"nonce\":\"n0\",\"state\":\"eyJyb3V0ZSI6Ii8iLCJub25jZSI6Im4xIn0=\"}'')"
    by (simp add: root_route_cookie_def cookie_parse_eval)
  then show ?thesis
    unfolding root_state_encoded by (simp add: to_string_def) (simp add: JSON_parse_eval)
qed

lemma dashboard_state_encoded:
  "generateEncodedStateString (str ''n1'') (Some (str ''https://app.example/dashboard''))
     = str ''eyJyb3V0ZSI6Imh0dHBzOi8vYXBwLmV4YW1wbGUvZGFzaGJvYXJkIiwibm9uY2UiOiJuMSJ9''"
  by (simp add: encode_state_eval)

lemma login_cookie_value_encoded:
  "encodeURIComponent
     (JSON_stringify
        [(str ''nonce'', str ''n0''),
         (str ''state'', str ''eyJyb3V0ZSI6Imh0dHBzOi8vYXBwLmV4YW1wbGUvZGFzaGJvYXJkIiwibm9uY2UiOiJuMSJ9'')])
   = Inr (str ''%7B%22nonce%22%3A%22n0%22%2C%22state%22%3A%22eyJyb3V0ZSI6Imh0dHBzOi8vYXBwLmV4YW1wbGUvZGFzaGJvYXJkIiwibm9uY2UiOiJuMSJ9%22%7D'')"
  by (simp add: JSON_stringify_def QuoteJSONString_def quote_unit_def is_lead_def is_trail_def
        uri_unreserved_def percent_encode_code_point_def percent_encode_byte_def
        utf8_of_code_point_def upper_hex_digit_def str_def)

lemma example_login:
  "handleLogin example_provider example_env (Some login_request)
     = (Inr login_response,
        [Discover (str ''https://idp.example''), NewClient, AuthorizationUrl])"
proof -
  note n = example_provider_calls(5)
  note a = example_provider_calls(6)
  have nl: "\<not> isRunningLocally example_env" by (simp add: isRunningLocally_def example_env_def)
  show ?thesis
    by (simp add: handleLogin_def login_request_def Let_def called_def lift_def ret_def
          example_client n a dashboard_state_encoded
          generateCrossIdLoginCookie_eq [OF login_cookie_value_encoded] nl login_response_def)
       (simp add: str_def)
qed

section \<open>Properties\<close>

text \<open>
  C1. For every route string \<open>r\<close> and every fresh nonce, decoding the state that
  \<open>generateEncodedStateString\<close> encodes (from base64, then from JSON, as lines 163 and
  164 of \<open>handleCallback\<close> do) gives the object with the route \<open>r\<close>, or \<open>/\<close> when
  \<open>r\<close> is empty, and with the nonce; its \<open>route\<close> property is that route.
\<close>

theorem flow_state_round_trip:
  "decodeState fromObject (Some (JStr (generateEncodedStateString fresh (Some r)))) =
     Inr (JObj [(str ''route'', JStr (if r = [] then str ''/'' else r)),
                (str ''nonce'', JStr fresh)])
   \<and> get_property
         (JObj [(str ''route'', JStr (if r = [] then str ''/'' else r)),
                (str ''nonce'', JStr fresh)])
         (str ''route'')
       = Inr (Some (JStr (if r = [] then str ''/'' else r)))"
  by (simp only: decodeState_generateEncodedStateString route_of_state route_or_root_def
        option.case)

text \<open>
  C2. The payload that \<open>generateNetlifyJWT\<close> hands to the signing collaborator has
  \<open>app_metadata.authorization.roles\<close> equal to the claims' \<open>groups\<close>, \<open>aud\<close> and \<open>sub\<close>
  copied as they are, \<open>iat\<close> equal to the floor of the current time in seconds,
  \<open>updated_at\<close> equal to \<open>iat\<close>, and \<open>exp - iat\<close> equal to \<open>14 * 24 * 3600\<close>, for every
  claims object, every time, every secret and every signer.
\<close>

theorem generateNetlifyJWT_payload:
  "\<exists>p. generateNetlifyJWT jwt_sign secret now td =
          jwt_sign p secret \<lparr> algorithm = HS256, header = \<lparr> jwt_typ = str ''JWT'' \<rparr> \<rparr>
      \<and> roles (authorization (app_metadata p)) = groups td
      \<and> tokenPayload.aud p = tokenData.aud td
      \<and> tokenPayload.sub p = tokenData.sub td
      \<and> updated_at p = iat p
      \<and> iat p = now div 1000
      \<and> exp p - iat p = 14 * 24 * 3600"
  by (rule exI [of _ "netlifyTokenPayload now td"])
     (simp add: generateNetlifyJWT_def netlifyTokenPayload_def
        NETLIFY_JWT_EXPIRATION_SECONDS_def Let_def)

text \<open>
  C3, as the code has it. When the request, its headers or its Cookie header is absent, or
  the Cookie header is empty, \<open>handleCallback\<close> throws the error of message
  \<open>Invalid request\<close> before any collaborator is called. When the Cookie header is there
  and holds no login cookie, the handler throws as well. In each case the outcome is an
  error: no redirect is issued and no cookie is set.
\<close>

theorem handleCallback_rejects_request:
  "handleCallback co e None = (Inl (Error ''Invalid request''), [])
   \<and> handleCallback co e (Some \<lparr> event.headers = None, body = b \<rparr>)
       = (Inl (Error ''Invalid request''), [])
   \<and> handleCallback co e
         (Some \<lparr> event.headers = Some \<lparr> referer = r, cookie = None, host = h \<rparr>, body = b \<rparr>)
       = (Inl (Error ''Invalid request''), [])
   \<and> handleCallback co e
         (Some \<lparr> event.headers = Some \<lparr> referer = r, cookie = Some [], host = h \<rparr>, body = b \<rparr>)
       = (Inl (Error ''Invalid request''), [])
   \<and> (map_of (cookie_parse ck) CROSSID_LOGIN_COOKIE_NAME = None \<longrightarrow>
        (\<exists>err. fst (handleCallback co e
                  (Some \<lparr> event.headers = Some \<lparr> referer = r, cookie = Some ck, host = h \<rparr>,
                          body = b \<rparr>))
               = Inl err))"
  using handleCallback_invalid [of co e] handleCallback_without_login_cookie [of ck co e r h b]
  by blast

text \<open>
  The last case at the Cookie header \<open>a=b\<close>, which holds no login cookie.
\<close>

theorem handleCallback_rejects_request_witness:
  "map_of (cookie_parse (str ''a=b'')) CROSSID_LOGIN_COOKIE_NAME = None
   \<and> (\<exists>err. fst (handleCallback example_provider example_env
                  (Some (callback_event (str ''a=b'') (str ''s''))))
              = Inl err)"
proof -
  have h: "map_of (cookie_parse (str ''a=b'')) CROSSID_LOGIN_COOKIE_NAME = None"
    by (simp add: cookie_parse_eval)
  show ?thesis
    using h handleCallback_rejects_request
      [where co = example_provider and e = example_env and r = None
         and h = "Some (str ''app.example'')"
         and b = "Some (str ''id_token=t&state='' @ str ''s'')"
         and ck = "str ''a=b''"]
    by (simp add: callback_event_def)
qed

text \<open>
  C3 as stated fails where the Cookie header holds no login cookie: with the header
  \<open>a=b\<close> and a provider whose discovery succeeds, the handler discovers the provider and
  then throws the SyntaxError of \<open>JSON.parse(undefined)\<close>, not the error of message
  \<open>Invalid request\<close>.
\<close>

theorem handleCallback_without_login_cookie_counterexample:
  "handleCallback example_provider example_env
     (Some (callback_event (str ''a=b'') (str ''s'')))
   = (Inl SyntaxError, [Discover (str ''https://idp.example''), NewClient])
   \<and> SyntaxError \<noteq> Error ''Invalid request''"
proof -
  have h: "map_of (cookie_parse (str ''a=b'')) CROSSID_LOGIN_COOKIE_NAME = None"
    by (simp add: cookie_parse_eval)
  have g: "getOpenIDClient example_provider example_env
             = (Inr (), [Discover (str ''https://idp.example''), NewClient])"
    by (simp add: getOpenIDClient_eq example_provider_def example_env_def to_string_def str_def)
  show ?thesis
    using h g
    by (simp add: handleCallback_def callback_event_def Let_def lift_def
          JSON_parse_undefined)
       (simp add: str_def)
qed

text \<open>
  C4, as the code has it. \<open>LOGIN_COOKIE_MAX_AGE\<close> is \<open>30 * 60 * 1000\<close>, thirty minutes in
  milliseconds, and the source passes it as \<open>maxAge\<close>, which the cookie library writes as
  a number of seconds: for every nonce and state the login cookie reads
  \<open>Max-Age=1800000\<close>, not \<open>Max-Age=1800\<close>.
\<close>

theorem login_cookie_max_age:
  "LOGIN_COOKIE_MAX_AGE = 1000 * (30 * 60)
   \<and> (\<exists>v. list_all uri_char v
          \<and> generateCrossIdLoginCookie e n s =
              Inr (str ''crossid_login_cookie='' @ v @ str ''; Max-Age=1800000; Path=/; HttpOnly''
                   @ (if isRunningLocally e then [] else str ''; Secure'')))"
proof -
  obtain v where v: "encodeURIComponent (JSON_stringify [(str ''nonce'', n), (str ''state'', s)]) = Inr v"
      "list_all uri_char v"
    using login_cookie_value_encodes [of n s] by blast
  show ?thesis
    using v(2) generateCrossIdLoginCookie_eq [OF v(1), of e]
    by (auto simp add: LOGIN_COOKIE_MAX_AGE_def)
qed

text \<open>
  C5, as the code has it. The default \<open>/\<close> is applied when the state is encoded at login:
  when the Referer was absent or empty, the state that \<open>generateEncodedStateString\<close> made
  carries the route \<open>/\<close>, and a callback that holds this state in its login cookie, and
  for which the provider's calls and the signing succeed with a well-formed token, is
  answered with a 302 to \<open>/\<close>.
\<close>

theorem handleCallback_route_defaulted_at_login:
  assumes "event.headers event = Some hs"
    and "cookie hs = Some ck" and "ck \<noteq> []"
    and "getOpenIDClient co e = (Inr client, l)"
    and "JSON_parse (to_string (map_of (cookie_parse ck) CROSSID_LOGIN_COOKIE_NAME)) = Inr parsed"
    and "get_property parsed (str ''nonce'') = Inr nv"
    and "get_property parsed (str ''state'')
           = Inr (Some (JStr (generateEncodedStateString fresh referer_header)))"
    and "referer_header = None \<or> referer_header = Some []"
    and "callbackParams co client
           \<lparr> request_method = str ''POST'', body = event.body event, url = host hs \<rparr>
         = Inr params"
    and "callback co client (callback_uri e) params
           \<lparr> nonce = nv, state = Some (JStr (generateEncodedStateString fresh referer_header)) \<rparr>
         = Inr tokenSet"
    and "claims co tokenSet = Inr td"
    and "generateNetlifyJWT (sign co) (TOKEN_SECRET e) (Date_now co) td = Inr token"
    and "well_formed token"
  shows "\<exists>v. encodeURIComponent token = Inr v
           \<and> handleCallback co e (Some event) =
               (Inr \<lparr> statusCode = 302,
                      headers = [(''Location'', Some (JStr (str ''/''))),
                                 (''Cache-Control'', Some (JStr (str ''no-cache'')))],
                      multiValueHeaders =
                        [(''Set-Cookie'',
                          [str ''nf_jwt='' @ v @ str ''; Max-Age=1209600; Path=/''
                             @ (if isRunningLocally e then [] else str ''; Secure''),
                           str ''crossid_login_cookie=; Max-Age=0; Path=/; HttpOnly''
                             @ (if isRunningLocally e then [] else str ''; Secure'')])] \<rparr>,
                l @ [CallbackParams, Callback, Claims, Sign])"
proof -
  have r: "route_or_root referer_header = str ''/''"
    using assms(8) by (auto simp add: route_or_root_def)
  have d: "decodeState (bufferFromObject co)
             (Some (JStr (generateEncodedStateString fresh referer_header)))
           = Inr (JObj [(str ''route'', JStr (str ''/'')), (str ''nonce'', JStr fresh)])"
    by (simp add: decodeState_generateEncodedStateString r)
  show ?thesis
    by (rule handleCallback_success
          [OF assms(1-7) assms(9-13) d route_of_state])
qed

text \<open>
  The same at the login cookie that the example login with no Referer sets.
\<close>

theorem handleCallback_route_defaulted_at_login_witness:
  "root_route_cookie \<noteq> []
   \<and> JSON_parse (to_string (map_of (cookie_parse root_route_cookie) CROSSID_LOGIN_COOKIE_NAME))
       = Inr (JObj [(str ''nonce'', JStr (str ''n0'')),
                    (str ''state'', JStr (generateEncodedStateString (str ''n1'') None))])
   \<and> callback example_provider () (callback_uri example_env)
         (str ''id_token=t&state='' @ generateEncodedStateString (str ''n1'') None)
         \<lparr> nonce = Some (JStr (str ''n0'')),
           state = Some (JStr (generateEncodedStateString (str ''n1'') None)) \<rparr>
       = Inr ()
   \<and> well_formed (str ''h.p.s'')
   \<and> handleCallback example_provider example_env
         (Some (callback_event root_route_cookie (generateEncodedStateString (str ''n1'') None))) =
       (Inr \<lparr> statusCode = 302,
              headers = [(''Location'', Some (JStr (str ''/''))),
                         (''Cache-Control'', Some (JStr (str ''no-cache'')))],
              multiValueHeaders =
                [(''Set-Cookie'',
                  [str ''nf_jwt=h.p.s; Max-Age=1209600; Path=/; Secure'',
                   str ''crossid_login_cookie=; Max-Age=0; Path=/; HttpOnly; Secure''])] \<rparr>,
        [Discover (str ''https://idp.example''), NewClient, CallbackParams, Callback, Claims, Sign])"
proof -
  let ?s = "generateEncodedStateString (str ''n1'') None"
  let ?ev = "callback_event root_route_cookie ?s"
  let ?hs = "\<lparr> referer = None, cookie = Some root_route_cookie, host = Some (str ''app.example'') \<rparr>"
  let ?parsed = "JObj [(str ''nonce'', JStr (str ''n0'')), (str ''state'', JStr ?s)]"
  have h1: "event.headers ?ev = Some ?hs" by (simp add: callback_event_def)
  have h2: "cookie ?hs = Some root_route_cookie" by simp
  have h3: "root_route_cookie \<noteq> []" by (simp add: root_route_cookie_def str_def)
  have h6: "get_property ?parsed (str ''nonce'') = Inr (Some (JStr (str ''n0'')))"
    and h7: "get_property ?parsed (str ''state'') = Inr (Some (JStr ?s))"
    by (simp_all add: str_def)
  have h8: "(None :: jsstring option) = None \<or> (None :: jsstring option) = Some []" by simp
  have h9: "callbackParams example_provider ()
              \<lparr> request_method = str ''POST'', body = event.body ?ev, url = host ?hs \<rparr>
            = Inr (str ''id_token=t&state='' @ ?s)"
    by (simp add: callback_event_def example_provider_calls(1))
  note h10 = example_provider_calls(2) [of "()" "callback_uri example_env" ?s]
  note h11 = example_provider_calls(3) [of "()"]
  have nl: "\<not> isRunningLocally example_env" by (simp add: isRunningLocally_def example_env_def)
  show ?thesis
    using handleCallback_route_defaulted_at_login
      [OF h1 h2 h3 example_client root_route_cookie_parsed h6 h7 h8 h9 h10 h11 example_token(1,2)]
      h3 h10 root_route_cookie_parsed example_token(2,3) nl
    by (simp add: str_def)
qed

text \<open>
  C5 as stated fails: \<open>handleCallback\<close> applies no default. With a login cookie whose state
  decodes to the empty route, and the same state posted in the body, the Location of the
  302 is the empty string, not \<open>/\<close>.
\<close>

theorem handleCallback_empty_route_counterexample:
  "decodeState (bufferFromObject example_provider)
     (Some (JStr (str ''eyJyb3V0ZSI6IiIsIm5vbmNlIjoieCJ9'')))
     = Inr (JObj [(str ''route'', JStr []), (str ''nonce'', JStr (str ''x''))])
   \<and> handleCallback example_provider example_env
         (Some (callback_event empty_route_cookie (str ''eyJyb3V0ZSI6IiIsIm5vbmNlIjoieCJ9''))) =
       (Inr \<lparr> statusCode = 302,
              headers = [(''Location'', Some (JStr [])),
                         (''Cache-Control'', Some (JStr (str ''no-cache'')))],
              multiValueHeaders =
                [(''Set-Cookie'',
                  [str ''nf_jwt=h.p.s; Max-Age=1209600; Path=/; Secure'',
                   str ''crossid_login_cookie=; Max-Age=0; Path=/; HttpOnly; Secure''])] \<rparr>,
        [Discover (str ''https://idp.example''), NewClient, CallbackParams, Callback, Claims, Sign])
   \<and> str ''/'' \<noteq> []"
proof -
  let ?s = "str ''eyJyb3V0ZSI6IiIsIm5vbmNlIjoieCJ9''"
  let ?ev = "callback_event empty_route_cookie ?s"
  let ?hs = "\<lparr> referer = None, cookie = Some empty_route_cookie, host = Some (str ''app.example'') \<rparr>"
  let ?parsed = "JObj [(str ''nonce'', JStr (str ''n0'')), (str ''state'', JStr ?s)]"
  have h1: "event.headers ?ev = Some ?hs" by (simp add: callback_event_def)
  have h2: "cookie ?hs = Some empty_route_cookie" by simp
  have h3: "empty_route_cookie \<noteq> []" by (simp add: empty_route_cookie_def str_def)
  have h6: "get_property ?parsed (str ''nonce'') = Inr (Some (JStr (str ''n0'')))"
    and h7: "get_property ?parsed (str ''state'') = Inr (Some (JStr ?s))"
    by (simp_all add: str_def)
  have h8: "callbackParams example_provider ()
              \<lparr> request_method = str ''POST'', body = event.body ?ev, url = host ?hs \<rparr>
            = Inr (str ''id_token=t&state='' @ ?s)"
    by (simp add: callback_event_def example_provider_calls(1))
  note h9 = example_provider_calls(2) [of "()" "callback_uri example_env" ?s]
  note h10 = example_provider_calls(3) [of "()"]
  have h14: "get_property (JObj [(str ''route'', JStr []), (str ''nonce'', JStr (str ''x''))])
               (str ''route'') = Inr (Some (JStr []))"
    by (rule route_of_state)
  have nl: "\<not> isRunningLocally example_env" by (simp add: isRunningLocally_def example_env_def)
  show ?thesis
    using handleCallback_success
      [OF h1 h2 h3 example_client empty_route_cookie_parsed h6 h7 h8 h9 h10 example_token(1,2)
          empty_route_state_decoded h14]
      example_token(3) empty_route_state_decoded nl
    by (simp add: str_def)
qed

text \<open>
  C6. When the request is absent, or the request has no headers, \<open>handleLogin\<close> throws
  the error of message \<open>Malformed event\<close>: the outcome is that error, so no response
  (no 302, no Set-Cookie) is returned, and no collaborator has been called, the provider
  discovery included.
\<close>

theorem handleLogin_malformed:
  "handleLogin co e None = (Inl (Error ''Malformed event''), [])
   \<and> handleLogin co e (Some \<lparr> event.headers = None, body = b \<rparr>)
       = (Inl (Error ''Malformed event''), [])"
  by (simp add: handleLogin_def throw_def)

text \<open>
  C7. Whenever \<open>handleLogin\<close> returns a response, the authorization URL in its Location
  was made by the provider's client from the nonce \<open>n\<close> and the state \<open>s\<close> of this
  invocation, and the value of the login cookie in its Set-Cookie is the URI-encoded
  \<open>JSON.stringify({nonce: n, state: s})\<close> of the same \<open>n\<close> and \<open>s\<close>, a text that
  \<open>JSON.parse\<close> reads back as that nonce and that state.
\<close>

theorem handleLogin_cookie_matches_url:
  assumes "handleLogin co e ev = (Inr resp, calls)"
  shows "\<exists>event hs client url v.
           ev = Some event \<and> event.headers event = Some hs
         \<and> fst (getOpenIDClient co e) = Inr client
         \<and> authorizationUrl co client
              \<lparr> scope = str ''openid email profile'',
                response_mode = str ''form_post'',
                nonce = generators_nonce co 0,
                state = generateEncodedStateString (generators_nonce co 1) (referer hs) \<rparr>
             = Inr url
         \<and> encodeURIComponent
              (JSON_stringify
                 [(str ''nonce'', generators_nonce co 0),
                  (str ''state'', generateEncodedStateString (generators_nonce co 1) (referer hs))])
             = Inr v
         \<and> JSON_parse
              (JSON_stringify
                 [(str ''nonce'', generators_nonce co 0),
                  (str ''state'', generateEncodedStateString (generators_nonce co 1) (referer hs))])
             = Inr (JObj
                 [(str ''nonce'', JStr (generators_nonce co 0)),
                  (str ''state'',
                   JStr (generateEncodedStateString (generators_nonce co 1) (referer hs)))])
         \<and> resp =
             \<lparr> statusCode = 302,
               headers =
                 [(''Location'', Some (JStr url)),
                  (''Cache-Control'', Some (JStr (str ''no-cache''))),
                  (''Set-Cookie'',
                   Some (JStr (str ''crossid_login_cookie='' @ v
                               @ str ''; Max-Age=1800000; Path=/; HttpOnly''
                               @ (if isRunningLocally e then [] else str ''; Secure''))))],
               multiValueHeaders = [] \<rparr>
         \<and> calls = snd (getOpenIDClient co e) @ [AuthorizationUrl]"
  using handleLogin_success [OF assms] JSON_parse_stringify2 by blast

text \<open>
  The same at the example login request.
\<close>

theorem handleLogin_cookie_matches_url_witness:
  "handleLogin example_provider example_env (Some login_request)
     = (Inr login_response,
        [Discover (str ''https://idp.example''), NewClient, AuthorizationUrl])
   \<and> (\<exists>url v.
         authorizationUrl example_provider ()
           \<lparr> scope = str ''openid email profile'',
             response_mode = str ''form_post'',
             nonce = str ''n0'',
             state = str ''eyJyb3V0ZSI6Imh0dHBzOi8vYXBwLmV4YW1wbGUvZGFzaGJvYXJkIiwibm9uY2UiOiJuMSJ9'' \<rparr>
           = Inr url
       \<and> encodeURIComponent
            (JSON_stringify
               [(str ''nonce'', str ''n0''),
                (str ''state'', str ''eyJyb3V0ZSI6Imh0dHBzOi8vYXBwLmV4YW1wbGUvZGFzaGJvYXJkIiwibm9uY2UiOiJuMSJ9'')])
           = Inr v
       \<and> login_response =
           \<lparr> statusCode = 302,
             headers =
               [(''Location'', Some (JStr url)),
                (''Cache-Control'', Some (JStr (str ''no-cache''))),
                (''Set-Cookie'',
                 Some (JStr (str ''crossid_login_cookie='' @ v
                             @ str ''; Max-Age=1800000; Path=/; HttpOnly; Secure'')))],
             multiValueHeaders = [] \<rparr>)"
proof -
  note n = example_provider_calls(5)
  have nl: "\<not> isRunningLocally example_env" by (simp add: isRunningLocally_def example_env_def)
  from handleLogin_cookie_matches_url [OF example_login]
  show ?thesis
    using example_login n nl dashboard_state_encoded
    by (auto simp add: login_request_def str_def)
qed

text \<open>
  C8, as the code has it. For a callback with a Cookie header, when the provider is
  discovered, the login cookie parses to a nonce and a state, the provider's client
  extracts the parameters and verifies them against that nonce and state, the claims are
  read, the token is signed and is a well-formed string, and the cookie-held state
  decodes to a value that has a route, the response is a 302 to that route with
  \<open>Cache-Control: no-cache\<close> and exactly two Set-Cookie entries: the session cookie
  (path \<open>/\<close>, max-age \<open>14 * 24 * 3600\<close>, no HttpOnly) and the login cookie cleared with
  max-age 0.
\<close>

theorem handleCallback_response:
  assumes "event.headers event = Some hs"
    and "cookie hs = Some ck" and "ck \<noteq> []"
    and "getOpenIDClient co e = (Inr client, l)"
    and "JSON_parse (to_string (map_of (cookie_parse ck) CROSSID_LOGIN_COOKIE_NAME)) = Inr parsed"
    and "get_property parsed (str ''nonce'') = Inr nv"
    and "get_property parsed (str ''state'') = Inr sv"
    and "callbackParams co client
           \<lparr> request_method = str ''POST'', body = event.body event, url = host hs \<rparr>
         = Inr params"
    and "callback co client (callback_uri e) params \<lparr> nonce = nv, state = sv \<rparr> = Inr tokenSet"
    and "claims co tokenSet = Inr td"
    and "generateNetlifyJWT (sign co) (TOKEN_SECRET e) (Date_now co) td = Inr token"
    and "well_formed token"
    and "decodeState (bufferFromObject co) sv = Inr decodedState"
    and "get_property decodedState (str ''route'') = Inr route"
  shows "\<exists>v. encodeURIComponent token = Inr v
           \<and> handleCallback co e (Some event) =
               (Inr \<lparr> statusCode = 302,
                      headers = [(''Location'', route),
                                 (''Cache-Control'', Some (JStr (str ''no-cache'')))],
                      multiValueHeaders =
                        [(''Set-Cookie'',
                          [str ''nf_jwt='' @ v @ str ''; Max-Age=1209600; Path=/''
                             @ (if isRunningLocally e then [] else str ''; Secure''),
                           str ''crossid_login_cookie=; Max-Age=0; Path=/; HttpOnly''
                             @ (if isRunningLocally e then [] else str ''; Secure'')])] \<rparr>,
                l @ [CallbackParams, Callback, Claims, Sign])"
  using assms by (rule handleCallback_success)

text \<open>
  The same at a callback whose login cookie holds a state with the route \<open>/dashboard\<close>.
\<close>

theorem handleCallback_response_witness:
  "event.headers (callback_event dashboard_cookie (str ''eyJyb3V0ZSI6Ii9kYXNoYm9hcmQiLCJub25jZSI6Im4xIn0=''))
     = Some \<lparr> referer = None, cookie = Some dashboard_cookie, host = Some (str ''app.example'') \<rparr>
   \<and> dashboard_cookie \<noteq> []
   \<and> getOpenIDClient example_provider example_env
       = (Inr (), [Discover (str ''https://idp.example''), NewClient])
   \<and> JSON_parse (to_string (map_of (cookie_parse dashboard_cookie) CROSSID_LOGIN_COOKIE_NAME))
       = Inr (JObj [(str ''nonce'', JStr (str ''n0'')),
                    (str ''state'', JStr (str ''eyJyb3V0ZSI6Ii9kYXNoYm9hcmQiLCJub25jZSI6Im4xIn0=''))])
   \<and> callback example_provider () (callback_uri example_env)
         (str ''id_token=t&state='' @ str ''eyJyb3V0ZSI6Ii9kYXNoYm9hcmQiLCJub25jZSI6Im4xIn0='')
         \<lparr> nonce = Some (JStr (str ''n0'')),
           state = Some (JStr (str ''eyJyb3V0ZSI6Ii9kYXNoYm9hcmQiLCJub25jZSI6Im4xIn0='')) \<rparr>
       = Inr ()
   \<and> well_formed (str ''h.p.s'')
   \<and> decodeState (bufferFromObject example_provider)
         (Some (JStr (str ''eyJyb3V0ZSI6Ii9kYXNoYm9hcmQiLCJub25jZSI6Im4xIn0='')))
       = Inr (JObj [(str ''route'', JStr (str ''/dashboard'')), (str ''nonce'', JStr (str ''n1''))])
   \<and> handleCallback example_provider example_env
         (Some (callback_event dashboard_cookie
                  (str ''eyJyb3V0ZSI6Ii9kYXNoYm9hcmQiLCJub25jZSI6Im4xIn0=''))) =
       (Inr \<lparr> statusCode = 302,
              headers = [(''Location'', Some (JStr (str ''/dashboard''))),
                         (''Cache-Control'', Some (JStr (str ''no-cache'')))],
              multiValueHeaders =
                [(''Set-Cookie'',
                  [str ''nf_jwt=h.p.s; Max-Age=1209600; Path=/; Secure'',
                   str ''crossid_login_cookie=; Max-Age=0; Path=/; HttpOnly; Secure''])] \<rparr>,
        [Discover (str ''https://idp.example''), NewClient, CallbackParams, Callback, Claims, Sign])"
proof -
  let ?s = "str ''eyJyb3V0ZSI6Ii9kYXNoYm9hcmQiLCJub25jZSI6Im4xIn0=''"
  let ?ev = "callback_event dashboard_cookie ?s"
  let ?hs = "\<lparr> referer = None, cookie = Some dashboard_cookie, host = Some (str ''app.example'') \<rparr>"
  let ?parsed = "JObj [(str ''nonce'', JStr (str ''n0'')), (str ''state'', JStr ?s)]"
  have h1: "event.headers ?ev = Some ?hs" by (simp add: callback_event_def)
  have h2: "cookie ?hs = Some dashboard_cookie" by simp
  have h3: "dashboard_cookie \<noteq> []" by (simp add: dashboard_cookie_def str_def)
  have h6: "get_property ?parsed (str ''nonce'') = Inr (Some (JStr (str ''n0'')))"
    and h7: "get_property ?parsed (str ''state'') = Inr (Some (JStr ?s))"
    by (simp_all add: str_def)
  have h8: "callbackParams example_provider ()
              \<lparr> request_method = str ''POST'', body = event.body ?ev, url = host ?hs \<rparr>
            = Inr (str ''id_token=t&state='' @ ?s)"
    by (simp add: callback_event_def example_provider_calls(1))
  note h9 = example_provider_calls(2) [of "()" "callback_uri example_env" ?s]
  note h10 = example_provider_calls(3) [of "()"]
  have h14: "get_property (JObj [(str ''route'', JStr (str ''/dashboard'')), (str ''nonce'', JStr (str ''n1''))])
               (str ''route'') = Inr (Some (JStr (str ''/dashboard'')))"
    by (rule route_of_state)
  have nl: "\<not> isRunningLocally example_env" by (simp add: isRunningLocally_def example_env_def)
  show ?thesis
    using handleCallback_response
      [OF h1 h2 h3 example_client dashboard_cookie_parsed h6 h7 h8 h9 h10 example_token(1,2)
          dashboard_state_decoded h14]
      h1 h3 h9 example_client dashboard_cookie_parsed example_token(2,3) dashboard_state_decoded nl
    by (simp add: str_def)
qed

text \<open>
  C8 as stated fails: the provider's verification can succeed and the handler still
  return no response. With a login cookie whose state is \<open>x\<close>, which is not the base64
  of a JSON text, and the same state posted in the body, the provider's client accepts
  the callback, the token is signed, and the handler throws a SyntaxError when it decodes
  the state.
\<close>

theorem handleCallback_verified_without_response_counterexample:
  "callback example_provider () (callback_uri example_env) (str ''id_token=t&state='' @ str ''x'')
     \<lparr> nonce = Some (JStr (str ''n0'')), state = Some (JStr (str ''x'')) \<rparr> = Inr ()
   \<and> handleCallback example_provider example_env
         (Some (callback_event undecodable_state_cookie (str ''x'')))
       = (Inl SyntaxError,
          [Discover (str ''https://idp.example''), NewClient, CallbackParams, Callback, Claims, Sign])"
proof -
  let ?s = "str ''x''"
  let ?ev = "callback_event undecodable_state_cookie ?s"
  let ?hs = "\<lparr> referer = None, cookie = Some undecodable_state_cookie,
               host = Some (str ''app.example'') \<rparr>"
  let ?parsed = "JObj [(str ''nonce'', JStr (str ''n0'')), (str ''state'', JStr ?s)]"
  have h1: "event.headers ?ev = Some ?hs" by (simp add: callback_event_def)
  have h2: "cookie ?hs = Some undecodable_state_cookie" by simp
  have h3: "undecodable_state_cookie \<noteq> []" by (simp add: undecodable_state_cookie_def str_def)
  have h6: "get_property ?parsed (str ''nonce'') = Inr (Some (JStr (str ''n0'')))"
    and h7: "get_property ?parsed (str ''state'') = Inr (Some (JStr ?s))"
    by (simp_all add: str_def)
  have h8: "callbackParams example_provider ()
              \<lparr> request_method = str ''POST'', body = event.body ?ev, url = host ?hs \<rparr>
            = Inr (str ''id_token=t&state='' @ ?s)"
    by (simp add: callback_event_def example_provider_calls(1))
  note h9 = example_provider_calls(2) [of "()" "callback_uri example_env" ?s]
  note h10 = example_provider_calls(3) [of "()"]
  show ?thesis
    using handleCallback_undecodable_state
      [OF h1 h2 h3 example_client undecodable_state_cookie_parsed h6 h7 h8 h9 h10
          example_token(1,2) undecodable_state]
      h9
    by simp
qed

text \<open>
  C9. For every invocation of \<open>handleLogout\<close>, whatever the request, in a deployment whose
  application URL is a well-formed string, the response is a 302 whose Location is the
  provider's logout URL with the URI-encoded application URL as \<open>returnTo\<close> and the client
  identifier as \<open>client_id\<close>, with \<open>Cache-Control: no-cache\<close> and one Set-Cookie that
  clears the session cookie with max-age 0; no collaborator is called.
\<close>

theorem handleLogout_response:
  assumes "well_formed (to_string (URL e))"
  shows "\<exists>v. encodeURIComponent (to_string (URL e)) = Inr v
           \<and> handleLogout e ev =
               (Inr \<lparr> statusCode = 302,
                      headers =
                        [(''Location'',
                          Some (JStr (str ''https://'' @ to_string (CROSSID_DOMAIN e)
                                      @ str ''/v2/logout?returnTo='' @ v
                                      @ str ''&client_id='' @ to_string (CROSSID_CLIENT_ID e)))),
                         (''Cache-Control'', Some (JStr (str ''no-cache''))),
                         (''Set-Cookie'',
                          Some (JStr (str ''nf_jwt=; Max-Age=0; Path=/; HttpOnly''
                                      @ (if isRunningLocally e then [] else str ''; Secure''))))],
                      multiValueHeaders = [] \<rparr>,
                [])"
proof -
  obtain v where v: "encodeURIComponent (to_string (URL e)) = Inr v"
    using encodeURIComponent_well_formed [OF assms] by blast
  show ?thesis using v handleLogout_eq [OF v] by blast
qed

text \<open>
  The same at the example deployment, invoked with no request.
\<close>

theorem handleLogout_response_witness:
  "well_formed (to_string (URL example_env))
   \<and> handleLogout example_env None =
       (Inr \<lparr> statusCode = 302,
              headers =
                [(''Location'',
                  Some (JStr (str ''https://idp.example/v2/logout?returnTo=https%3A%2F%2Fapp.example&client_id=client''))),
                 (''Cache-Control'', Some (JStr (str ''no-cache''))),
                 (''Set-Cookie'',
                  Some (JStr (str ''nf_jwt=; Max-Age=0; Path=/; HttpOnly; Secure'')))],
              multiValueHeaders = [] \<rparr>,
        [])"
proof -
  have w: "well_formed (to_string (URL example_env))"
    by (simp add: example_env_def to_string_def str_def is_lead_def is_trail_def)
  have u: "encodeURIComponent (to_string (URL example_env)) = Inr (str ''https%3A%2F%2Fapp.example'')"
    by (simp add: example_env_def to_string_def uri_unreserved_def percent_encode_code_point_def
          percent_encode_byte_def utf8_of_code_point_def upper_hex_digit_def is_lead_def
          is_trail_def str_def)
  have nl: "\<not> isRunningLocally example_env" by (simp add: isRunningLocally_def example_env_def)
  show ?thesis
    using w u nl handleLogout_response [OF w, of None]
    by (auto simp add: example_env_def to_string_def str_def)
qed

text \<open>
  C10. Each of the four cookies the source serializes (the login cookie, the cleared
  login cookie, the cleared session cookie and the session cookie) is written with
  \<open>Path=/\<close>, and with \<open>Secure\<close> exactly when the deployment does not run locally. The
  value \<open>v\<close> of a cookie is URI-encoded, so it holds no semicolon and no space.
\<close>

theorem cookies_path_and_secure:
  "(\<exists>v. list_all uri_char v
        \<and> generateCrossIdLoginCookie e n s =
            Inr (str ''crossid_login_cookie='' @ v @ str ''; Max-Age=1800000; Path=/; HttpOnly''
                 @ (if isRunningLocally e then [] else str ''; Secure'')))
   \<and> generateCrossIdLoginResetCookie e =
       Inr (str ''crossid_login_cookie=; Max-Age=0; Path=/; HttpOnly''
            @ (if isRunningLocally e then [] else str ''; Secure''))
   \<and> generateLogoutCookie e =
       Inr (str ''nf_jwt=; Max-Age=0; Path=/; HttpOnly''
            @ (if isRunningLocally e then [] else str ''; Secure''))
   \<and> (fst (generateNetlifyCookieFromCrossIdToken co e td) = Inr c \<longrightarrow>
        (\<exists>v. list_all uri_char v
            \<and> c = str ''nf_jwt='' @ v @ str ''; Max-Age=1209600; Path=/''
                   @ (if isRunningLocally e then [] else str ''; Secure'')))"
proof -
  obtain v where v: "encodeURIComponent (JSON_stringify [(str ''nonce'', n), (str ''state'', s)]) = Inr v"
      "list_all uri_char v"
    using login_cookie_value_encodes [of n s] by blast
  show ?thesis
    using v(2) generateCrossIdLoginCookie_eq [OF v(1), of e] generateCrossIdLoginResetCookie_eq [of e]
      generateLogoutCookie_eq [of e] session_cookie_Inr [of co e td c]
    by blast
qed

text \<open>
  The session cookie of the example deployment.
\<close>

theorem cookies_path_and_secure_witness:
  "fst (generateNetlifyCookieFromCrossIdToken example_provider example_env
          \<lparr> tokenData.aud = Some (JStr (str ''A'')), tokenData.sub = Some (JStr (str ''S'')),
            groups = Some (JArr [JStr (str ''g1''), JStr (str ''g2'')]) \<rparr>)
     = Inr (str ''nf_jwt=h.p.s; Max-Age=1209600; Path=/; Secure'')
   \<and> (\<exists>v. list_all uri_char v
          \<and> str ''nf_jwt=h.p.s; Max-Age=1209600; Path=/; Secure''
              = str ''nf_jwt='' @ v @ str ''; Max-Age=1209600; Path=/; Secure'')"
proof -
  let ?td = "\<lparr> tokenData.aud = Some (JStr (str ''A'')), tokenData.sub = Some (JStr (str ''S'')),
               groups = Some (JArr [JStr (str ''g1''), JStr (str ''g2'')]) \<rparr>"
  have nl: "\<not> isRunningLocally example_env" by (simp add: isRunningLocally_def example_env_def)
  have h: "fst (generateNetlifyCookieFromCrossIdToken example_provider example_env ?td)
             = Inr (str ''nf_jwt=h.p.s; Max-Age=1209600; Path=/; Secure'')"
    using session_cookie_eq [OF example_token(3) example_token(2), of example_env] nl
    by (simp add: generateNetlifyCookieFromCrossIdToken_def generateNetlifyJWT_called_def
          called_def lift_def example_token(1))
       (simp add: str_def)
  show ?thesis
    using h nl cookies_path_and_secure
      [where co = example_provider and e = example_env and td = ?td
         and c = "str ''nf_jwt=h.p.s; Max-Age=1209600; Path=/; Secure''"]
    by (simp add: str_def)
qed

end
